theory Spec2Isabelle
  imports Complex_Main "HOL-Library.Stream" "HOL-Library.Sublist"
begin

section \<open>Numeric element types\<close>

text \<open>
  The element type \<^verbatim>\<open>DataType\<close> (a C++ float) and the evaluation type
  \<^verbatim>\<open>EvalType\<close> (a C++ double) are both embedded as \<^typ>\<open>real\<close>: the layers below
  only compare, add, multiply and divide elements, and the properties verified here are about
  which buffer receives which elementwise expression. Rounding and NaN are outside the
  embedding.
\<close>

type_synonym DataType = real
type_synonym EvalType = real

section \<open>Entrywise activation layers (activations/id.hpp)\<close>

subsection \<open>Identity layer\<close>

text \<open>
  \<^verbatim>\<open>DataType activation_function(DataType z) { return z; }\<close> and
  \<^verbatim>\<open>DataType activation_function_gradient(DataType z) { return z; }\<close> of
  \<^verbatim>\<open>id_layer\<close>.
\<close>

definition id_layer_activation_function :: "DataType \<Rightarrow> DataType" where
  "id_layer_activation_function z = z"

definition id_layer_activation_function_gradient :: "DataType \<Rightarrow> DataType" where
  "id_layer_activation_function_gradient z = z"

subsection \<open>Rectified linear unit\<close>

text \<open>
  \<^verbatim>\<open>activation(x) = x > DataType(0) ? x : DataType(0)\<close> and
  \<^verbatim>\<open>activation_derivative(x) = x > DataType(0) ? DataType(1) : DataType(0)\<close> of
  \<^verbatim>\<open>relu_layer\<close>.
\<close>

definition relu_layer_activation :: "DataType \<Rightarrow> DataType" where
  "relu_layer_activation x = (if x > 0 then x else 0)"

definition relu_layer_activation_derivative :: "DataType \<Rightarrow> DataType" where
  "relu_layer_activation_derivative x = (if x > 0 then 1 else 0)"

section \<open>Errors\<close>

text \<open>
  Every throw of the code is a value: \<^verbatim>\<open>LBANN_ERROR(msg)\<close> throws an exception that
  carries \<open>msg\<close>, the linear-algebra library reports a misuse as a logic error, and
  \<^verbatim>\<open>CHECK_CUDNN\<close> turns a non-success status of the accelerator library into a fatal
  error.
\<close>

datatype error =
  LBANN_ERROR string
  | LogicError string
  | CudnnError string

section \<open>Covariance layer (covariance implementation file)\<close>

text \<open>Printing a C++ \<^verbatim>\<open>int\<close> into a string stream: decimal digits, a minus sign first.\<close>

definition digit_char :: "nat \<Rightarrow> char" where
  "digit_char d = char_of (48 + d)"

function show_nat :: "nat \<Rightarrow> string" where
  "show_nat n = (if n < 10 then [digit_char n] else show_nat (n div 10) @ [digit_char (n mod 10)])"
  by pat_completeness auto
termination
  by (relation "measure id") auto

declare show_nat.simps [simp del]

definition show_int :: "int \<Rightarrow> string" where
  "show_int i = (if i < 0 then CHR ''-'' # show_nat (nat (- i)) else show_nat (nat i))"

definition dquote :: char where
  "dquote = CHR 0x22"

text \<open>
  A parent layer as the covariance layer sees it: its name and the dimensions of the tensor
  it outputs.
\<close>

record parent_layer =
  parent_name :: string
  parent_output_dims :: "int list"

datatype Dist = MC | MD | MR | VC | VR | STAR | CIRC

record DistData =
  colDist :: Dist
  rowDist :: Dist

text \<open>
  The covariance layer: \<open>m_means\<close> and \<open>m_workspace\<close> are the two auxiliary buffers, null
  (\<open>None\<close>) until \<^verbatim>\<open>setup_data\<close> instantiates them.
\<close>

record covariance_layer =
  layer_type :: string
  layer_name :: string
  parent_layers :: "parent_layer list"
  output_dims :: "int list"
  prev_activations_dist :: DistData
  m_means :: "DistData option"
  m_workspace :: "DistData option"

text \<open>
  Modelled from the spec: the base class's accessors \<^verbatim>\<open>get_num_parents\<close> and
  \<^verbatim>\<open>get_input_dims\<close>, which are not part of the sources. The layer has read-only access to
  each parent's resolved tensor shape: input \<open>i\<close> has the output dimensions of parent \<open>i\<close>, and
  an index without a parent is an error.
\<close>

definition get_num_parents :: "covariance_layer \<Rightarrow> nat" where
  "get_num_parents l = length (parent_layers l)"

definition get_input_dims :: "covariance_layer \<Rightarrow> nat \<Rightarrow> error + int list" where
  "get_input_dims l i =
     (if i < get_num_parents l then Inr (parent_output_dims (parent_layers l ! i))
      else Inl (LBANN_ERROR ''invalid input tensor index''))"

text \<open>
  \<^verbatim>\<open>setup_data\<close>: after the base class, both auxiliary buffers are instantiated with the
  distribution of the input, the column distribution replaced by \<^verbatim>\<open>El::STAR\<close>.
\<close>

definition setup_data :: "covariance_layer \<Rightarrow> covariance_layer" where
  "setup_data l =
     (let dist_data = (prev_activations_dist l)\<lparr>colDist := STAR\<rparr>
      in l\<lparr>m_means := Some dist_data, m_workspace := Some dist_data\<rparr>)"

text \<open>The inner loop over \<open>j\<close>: the dimensions, separated by \<^verbatim>\<open>" x "\<close>.\<close>

fun dims_loop :: "nat \<Rightarrow> int list \<Rightarrow> string \<Rightarrow> string" where
  "dims_loop j [] err = err"
| "dims_loop j (d # ds) err =
     dims_loop (Suc j) ds (err @ (if j > 0 then '' x '' else []) @ show_int d)"

text \<open>The outer loop over the parents \<open>i\<close>, separated by \<^verbatim>\<open>", "\<close>.\<close>

fun parents_loop :: "nat \<Rightarrow> parent_layer list \<Rightarrow> string \<Rightarrow> string" where
  "parents_loop i [] err = err"
| "parents_loop i (p # ps) err =
     parents_loop (Suc i) ps
       (dims_loop 0 (parent_output_dims p)
          (err @ (if i > 0 then '', '' else []) @ ''layer '' @ [dquote] @ parent_name p
             @ [dquote] @ '' outputs ''))"

text \<open>
  \<^verbatim>\<open>setup_dims\<close>: after the base class (which resolves the input dimensions, here the
  parents' output dimensions), the output dimensions become \<open>{1}\<close>; when the dimensions of
  inputs 0 and 1 differ, the message is assembled and thrown. A throw is returned as \<open>Inl\<close>
  with the exception and the layer as the throw leaves it.
\<close>

definition setup_dims :: "covariance_layer \<Rightarrow> (error \<times> covariance_layer) + covariance_layer" where
  "setup_dims l0 =
     (let l = l0\<lparr>output_dims := [1]\<rparr> in
      case get_input_dims l 0 of
        Inl e \<Rightarrow> Inl (e, l)
      | Inr dims0 \<Rightarrow>
          (case get_input_dims l 1 of
             Inl e \<Rightarrow> Inl (e, l)
           | Inr dims1 \<Rightarrow>
               if dims0 \<noteq> dims1 then
                 let err = layer_type l @ '' layer '' @ [dquote] @ layer_name l @ [dquote] @ '' ''
                             @ ''has input tensors with different dimensions ('';
                     err = parents_loop 0 (parent_layers l) err;
                     err = err @ '')''
                 in Inl (LBANN_ERROR err, l)
               else Inr l))"

text \<open>
  What naming a parent together with its dimensions means, stated apart from the printing
  loops above. A text is the decimal numeral of an integer when it is a non-empty row of
  digits (the characters with codes 48 to 57, \<^verbatim>\<open>0\<close> to \<^verbatim>\<open>9\<close>) whose value is the integer,
  with a minus sign in front for a negative one. A message
  names a parent when it contains \<^verbatim>\<open>layer "<name>" outputs \<close> followed by the decimal
  numerals of the parent's dimensions, in order, separated by \<^verbatim>\<open>" x "\<close>.
\<close>

definition is_digit :: "char \<Rightarrow> bool" where
  "is_digit c = (48 \<le> (of_char c :: nat) \<and> (of_char c :: nat) \<le> 57)"

definition digit_value :: "char \<Rightarrow> nat" where
  "digit_value c = of_char c - 48"

definition read_digits :: "string \<Rightarrow> nat" where
  "read_digits t = foldl (\<lambda>a c. 10 * a + digit_value c) 0 t"

definition decimal_numeral :: "string \<Rightarrow> int \<Rightarrow> bool" where
  "decimal_numeral t i =
     (if i < 0
      then t \<noteq> [] \<and> hd t = CHR ''-'' \<and> tl t \<noteq> [] \<and> list_all is_digit (tl t)
           \<and> int (read_digits (tl t)) = - i
      else t \<noteq> [] \<and> list_all is_digit t \<and> int (read_digits t) = i)"

fun separated :: "string \<Rightarrow> string list \<Rightarrow> string" where
  "separated sep [] = []"
| "separated sep [t] = t"
| "separated sep (t # u # ts) = t @ sep @ separated sep (u # ts)"

definition names_parent :: "string \<Rightarrow> parent_layer \<Rightarrow> bool" where
  "names_parent msg p =
     (\<exists>numerals. list_all2 decimal_numeral numerals (parent_output_dims p)
        \<and> sublist (''layer '' @ [dquote] @ parent_name p @ [dquote] @ '' outputs ''
                     @ separated '' x '' numerals) msg)"

section \<open>Distributed matrices over an explicit memory\<close>

text \<open>
  Buffers live in a memory of numbered cells; \<open>next_free\<close> is the allocator's next
  address, so an allocation is visible as a change of it. A distributed matrix
  (\<^verbatim>\<open>AbsDistMat\<close>) is seen from one process, where its local matrix is the whole matrix: it is
  its height and width, the address of the buffer it reads and writes, and whether it is a
  locked (read-only) view of a buffer that another matrix owns. A buffer may be longer than
  the matrix laid over it; the matrix's entries are the first \<open>Height * Width\<close> cells.
\<close>

type_synonym addr = nat

record memory =
  cells :: "addr \<Rightarrow> DataType list"
  next_free :: addr

record AbsDistMat =
  Height :: nat
  Width :: nat
  Buffer :: addr
  Locked :: bool

definition entries :: "memory \<Rightarrow> AbsDistMat \<Rightarrow> DataType list" where
  "entries m A = take (Height A * Width A) (cells m (Buffer A))"

definition store :: "memory \<Rightarrow> AbsDistMat \<Rightarrow> DataType list \<Rightarrow> memory" where
  "store m A xs = m\<lparr>cells := (cells m)(Buffer A := xs @ drop (length xs) (cells m (Buffer A)))\<rparr>"

text \<open>
  Modelled from the spec: the linear-algebra library's \<^verbatim>\<open>Resize\<close>, which is not part of the
  sources. It reallocates only if the requested size exceeds the current capacity, and
  touching a locked view as mutable is an error.
\<close>

definition Resize :: "nat \<Rightarrow> nat \<Rightarrow> AbsDistMat \<Rightarrow> memory \<Rightarrow> error + (AbsDistMat \<times> memory)" where
  "Resize h w A m =
     (if Locked A then Inl (LogicError ''mutable access to a locked view'')
      else if h * w \<le> length (cells m (Buffer A)) then Inr (A\<lparr>Height := h, Width := w\<rparr>, m)
      else Inr (A\<lparr>Height := h, Width := w, Buffer := next_free m\<rparr>,
                m\<lparr>cells := (cells m)(next_free m := replicate (h * w) 0),
                  next_free := Suc (next_free m)\<rparr>))"

text \<open>
  Modelled from the spec: \<^verbatim>\<open>El::LockedView(A, B)\<close> makes \<open>A\<close> an alias of the storage of
  \<open>B\<close> without copying: no cell of the memory is read or written.
\<close>

definition LockedView :: "AbsDistMat \<Rightarrow> AbsDistMat \<Rightarrow> AbsDistMat" where
  "LockedView A B = A\<lparr>Height := Height B, Width := Width B, Buffer := Buffer B, Locked := True\<rparr>"

text \<open>
  \<^verbatim>\<open>El::Axpy(alpha, X, Y)\<close> of the linear-algebra library: \<open>Y := alpha * X + Y\<close> entry by
  entry, for matrices of equal dimensions.
\<close>

definition Axpy :: "DataType \<Rightarrow> AbsDistMat \<Rightarrow> AbsDistMat \<Rightarrow> memory \<Rightarrow> error + memory" where
  "Axpy alpha X Y m =
     (if Locked Y then Inl (LogicError ''mutable access to a locked view'')
      else if Height X \<noteq> Height Y \<or> Width X \<noteq> Width Y then Inl (LogicError ''Nonconformal Axpy'')
      else Inr (store m Y (map2 (\<lambda>x y. alpha * x + y) (entries m X) (entries m Y))))"

text \<open>
  \<^verbatim>\<open>El::Hadamard(A, B, C)\<close> of the linear-algebra library: \<open>A\<close> and \<open>B\<close> must have equal
  dimensions, \<open>C\<close> is resized to them and receives the entrywise product. The resized \<open>C\<close>
  is returned with the memory.
\<close>

definition Hadamard ::
  "AbsDistMat \<Rightarrow> AbsDistMat \<Rightarrow> AbsDistMat \<Rightarrow> memory \<Rightarrow> error + (AbsDistMat \<times> memory)" where
  "Hadamard A B C m =
     (if Height A \<noteq> Height B \<or> Width A \<noteq> Width B
      then Inl (LogicError ''Hadamard product requires equal dimensions'')
      else case Resize (Height A) (Width A) C m of
             Inl e \<Rightarrow> Inl e
           | Inr (C', m') \<Rightarrow> Inr (C', store m' C' (map2 (*) (entries m' A) (entries m' B))))"

section \<open>Random number generators\<close>

text \<open>
  A distribution of the standard library does not use the raw values of an engine as they
  come: for every draw it obtains one uniform variate in \<open>[0, 1)\<close> through
  \<^verbatim>\<open>std::generate_canonical\<close>, which combines as many raw values as the range of the engine
  requires (two of a 32-bit engine for a double). The engines behind the layer's generators
  are not part of the sources. A generator is therefore embedded as the stream of the uniform
  variates it will deliver, one element per draw, whatever the engine; \<open>canonical\<close> reads a
  variate as the real number in \<open>[0, 1)\<close> it is. A Bernoulli distribution with parameter \<open>p\<close>
  consumes one variate and succeeds when the variate is below \<open>p\<close>.
\<close>

typedef variate = "{u :: real. 0 \<le> u \<and> u < 1}"
  morphisms canonical Abs_variate
  by (rule exI [of _ 0]) simp

setup_lifting type_definition_variate

text \<open>The variate that is the real number \<open>x\<close>, for \<open>x\<close> in \<open>[0, 1)\<close> (and 0 otherwise).\<close>

lift_definition variate_of :: "real \<Rightarrow> variate" is "\<lambda>x. if 0 \<le> x \<and> x < 1 then x else 0"
  by simp

type_synonym rng_gen = "variate stream"

definition bernoulli_distribution :: "EvalType \<Rightarrow> rng_gen \<Rightarrow> bool \<times> rng_gen" where
  "bernoulli_distribution p gen = (canonical (shd gen) < p, stl gen)"

text \<open>
  \<^verbatim>\<open>El::EntrywiseMap(A, f)\<close> for a function that draws from a generator: the entries are
  replaced one after the other, the generator advancing with each call of \<open>f\<close>.
\<close>

fun EntrywiseMap_entries ::
  "(DataType \<Rightarrow> rng_gen \<Rightarrow> DataType \<times> rng_gen) \<Rightarrow> DataType list \<Rightarrow> rng_gen \<Rightarrow> DataType list \<times> rng_gen" where
  "EntrywiseMap_entries f [] gen = ([], gen)"
| "EntrywiseMap_entries f (z # zs) gen =
     (case f z gen of (y, gen') \<Rightarrow>
        (case EntrywiseMap_entries f zs gen' of (ys, gen'') \<Rightarrow> (y # ys, gen'')))"

definition EntrywiseMap ::
  "AbsDistMat \<Rightarrow> (DataType \<Rightarrow> rng_gen \<Rightarrow> DataType \<times> rng_gen) \<Rightarrow> memory \<Rightarrow> rng_gen
     \<Rightarrow> error + (memory \<times> rng_gen)" where
  "EntrywiseMap A f m gen =
     (if Locked A then Inl (LogicError ''mutable access to a locked view'')
      else case EntrywiseMap_entries f (entries m A) gen of
             (ys, gen') \<Rightarrow> Inr (store m A ys, gen'))"

text \<open>
  Modelled from the spec: \<^verbatim>\<open>bernoulli_fill_procdet\<close>, which is not part of the sources. It
  makes the matrix \<open>h\<close> by \<open>w\<close> and fills it with Bernoulli draws (1 or 0) taken in order from
  the globally seeded deterministic stream shared across the whole matrix.
\<close>

definition bernoulli_fill_procdet ::
  "AbsDistMat \<Rightarrow> nat \<Rightarrow> nat \<Rightarrow> DataType \<Rightarrow> memory \<Rightarrow> rng_gen
     \<Rightarrow> error + (AbsDistMat \<times> memory \<times> rng_gen)" where
  "bernoulli_fill_procdet A h w p m gen =
     (case Resize h w A m of
        Inl e \<Rightarrow> Inl e
      | Inr (A', m') \<Rightarrow>
          (case EntrywiseMap A'
                  (\<lambda>z g. case bernoulli_distribution p g of (b, g') \<Rightarrow> (if b then 1 else 0, g'))
                  m' gen of
             Inl e \<Rightarrow> Inl e
           | Inr (m'', gen') \<Rightarrow> Inr (A', m'', gen')))"

text \<open>\<^verbatim>\<open>A *= scale\<close>: every entry of \<open>A\<close> is multiplied by \<open>scale\<close>.\<close>

definition scale_matrix :: "AbsDistMat \<Rightarrow> DataType \<Rightarrow> memory \<Rightarrow> error + memory" where
  "scale_matrix A alpha m =
     (if Locked A then Inl (LogicError ''mutable access to a locked view'')
      else Inr (store m A (map (\<lambda>x. x * alpha) (entries m A))))"

section \<open>Accelerator library (cuDNN) as the dropout layer uses it\<close>

text \<open>
  A tensor descriptor holds the shape it was configured with and, as the record of that
  configuration, the buffer of the matrix it was configured from; a dropout descriptor holds
  the dropout probability. The library is not part of the sources: its kernels are embedded
  by their documented effect, and every kernel invocation is recorded together with, for each
  buffer passed, the descriptor passed for it and the local matrix whose buffer it is.
\<close>

type_synonym shape = "nat \<times> nat"

record tensor_desc =
  desc_shape :: shape
  desc_source :: addr

record dropout_desc =
  dropout_probability :: real

record kernel_call =
  kernel_name :: string
  descriptor_buffer_pairs :: "(tensor_desc \<times> AbsDistMat) list"

definition local_shape :: "AbsDistMat \<Rightarrow> shape" where
  "local_shape A = (Height A, Width A)"

text \<open>
  A descriptor fits a buffer when it describes the current local shape of the buffer's matrix
  and was configured from that matrix.
\<close>

definition configured_from :: "tensor_desc \<Rightarrow> AbsDistMat \<Rightarrow> bool" where
  "configured_from d A = (desc_shape d = local_shape A \<and> desc_source d = Buffer A)"

definition numel :: "shape \<Rightarrow> nat" where
  "numel d = fst d * snd d"

text \<open>The size in bytes of one \<^verbatim>\<open>DataType\<close> (a float).\<close>

definition sizeof_DataType :: nat where
  "sizeof_DataType = 4"

text \<open>
  Modelled from the spec: \<^verbatim>\<open>cudnn::set_tensor_desc(desc, matrix)\<close>, which is not part of the
  sources. Whatever the descriptor was, afterwards it is a valid descriptor of the shape of
  \<open>matrix\<close>, configured from \<open>matrix\<close>.
\<close>

definition set_tensor_desc :: "tensor_desc option \<Rightarrow> AbsDistMat \<Rightarrow> tensor_desc option" where
  "set_tensor_desc desc matrix = Some \<lparr>desc_shape = local_shape matrix, desc_source = Buffer matrix\<rparr>"

section \<open>Dropout layer (regularizers/dropout.hpp)\<close>

text \<open>
  Modelled from the spec: the execution mode, an enumeration that is not part of the sources;
  the layer only asks whether it is \<open>training\<close>.
\<close>

datatype execution_mode = training | evaluation

text \<open>
  The state a dropout layer computes on. \<open>get_execution_mode\<close> is the mode of the model,
  \<open>using_gpus\<close> the base class's device flag, \<open>LBANN_HAS_CUDNN\<close> and
  \<open>LBANN_SEQUENTIAL_CONSISTENCY\<close> the two build options. \<open>prev_activations\<close> is the input
  (owned by the parent), \<open>activations\<close> the output, \<open>prev_error_signals\<close> the gradient with
  respect to the output (owned by the child), \<open>error_signals\<close> the gradient with respect to
  the input. \<open>fast_generator\<close> and \<open>generator\<close> are the two process-wide generators.
  \<open>m_reserve_space_Height\<close> is the height of the accelerator work space and \<open>reserve_mask\<close>
  the scaled mask the forward kernel leaves in it; \<open>reserve_space_size\<close> is the library's
  answer to \<^verbatim>\<open>cudnnDropoutGetReserveSpaceSize\<close>, in bytes, for a tensor of that many
  elements.
\<close>

record dropout =
  get_execution_mode :: execution_mode
  using_gpus :: bool
  LBANN_HAS_CUDNN :: bool
  LBANN_SEQUENTIAL_CONSISTENCY :: bool
  m_keep_prob :: EvalType
  heap :: memory
  prev_activations :: AbsDistMat
  activations :: AbsDistMat
  prev_error_signals :: AbsDistMat
  error_signals :: AbsDistMat
  m_mask :: AbsDistMat
  fast_generator :: rng_gen
  generator :: rng_gen
  m_dropout_cudnn_desc :: "dropout_desc option"
  m_input_cudnn_desc :: "tensor_desc option"
  m_output_cudnn_desc :: "tensor_desc option"
  m_gradient_wrt_output_cudnn_desc :: "tensor_desc option"
  m_gradient_wrt_input_cudnn_desc :: "tensor_desc option"
  m_states :: rng_gen
  m_reserve_space_Height :: nat
  reserve_mask :: "DataType list"
  reserve_space_size :: "nat \<Rightarrow> nat"
  kernel_calls :: "kernel_call list"

text \<open>The test both passes use: dropout is disabled outside training or with a negative
  keep probability.\<close>

definition dropout_disabled :: "dropout \<Rightarrow> bool" where
  "dropout_disabled s = (get_execution_mode s \<noteq> training \<or> m_keep_prob s < 0)"

subsection \<open>CPU passes\<close>

text \<open>
  \<^verbatim>\<open>fp_compute_cpu\<close>. Disabled: the output becomes a locked view of the input. Enabled: the
  mask is resized to the input's dimensions and filled, either by the deterministic fill
  followed by scaling (sequential consistency) or entry by entry with a Bernoulli draw from the
  fast generator that yields \<open>scale\<close> or 0; the output is the entrywise product of input and
  mask.
\<close>

definition fp_compute_cpu :: "dropout \<Rightarrow> error + dropout" where
  "fp_compute_cpu s =
     (let input = prev_activations s;
          output = activations s in
      if get_execution_mode s \<noteq> training \<or> m_keep_prob s < 0
      then Inr (s\<lparr>activations := LockedView output input\<rparr>)
      else
        let scale = 1 / m_keep_prob s;
            height = Height input;
            width = Width input in
        case Resize height width (m_mask s) (heap s) of
          Inl e \<Rightarrow> Inl e
        | Inr (msk, m) \<Rightarrow>
            (case (if LBANN_SEQUENTIAL_CONSISTENCY s
                   then (case bernoulli_fill_procdet msk height width (m_keep_prob s) m (generator s) of
                           Inl e \<Rightarrow> Inl e
                         | Inr (msk', m', gen') \<Rightarrow>
                             (case scale_matrix msk' scale m' of
                                Inl e \<Rightarrow> Inl e
                              | Inr m'' \<Rightarrow> Inr (s\<lparr>heap := m'', m_mask := msk', generator := gen'\<rparr>)))
                   else (case EntrywiseMap msk
                                (\<lambda>z gen. case bernoulli_distribution (m_keep_prob s) gen of
                                            (b, gen') \<Rightarrow> (if b then scale else 0, gen'))
                                m (fast_generator s) of
                           Inl e \<Rightarrow> Inl e
                         | Inr (m', gen') \<Rightarrow>
                             Inr (s\<lparr>heap := m', m_mask := msk, fast_generator := gen'\<rparr>))) of
               Inl e \<Rightarrow> Inl e
             | Inr s1 \<Rightarrow>
                 (case Hadamard input (m_mask s1) output (heap s1) of
                    Inl e \<Rightarrow> Inl e
                  | Inr (output', m') \<Rightarrow> Inr (s1\<lparr>heap := m', activations := output'\<rparr>))))"

text \<open>
  \<^verbatim>\<open>bp_compute_cpu\<close>. Disabled: the gradient with respect to the output is added to the
  gradient with respect to the input. Enabled: the product of the gradient with respect to the
  output and the mask is written into the mask, and the mask is then added to the gradient
  with respect to the input.
\<close>

definition bp_compute_cpu :: "dropout \<Rightarrow> error + dropout" where
  "bp_compute_cpu s =
     (let gradient_wrt_output = prev_error_signals s;
          gradient_wrt_input = error_signals s in
      if get_execution_mode s \<noteq> training \<or> m_keep_prob s < 0
      then (case Axpy 1 gradient_wrt_output gradient_wrt_input (heap s) of
              Inl e \<Rightarrow> Inl e
            | Inr m \<Rightarrow> Inr (s\<lparr>heap := m\<rparr>))
      else (case Hadamard gradient_wrt_output (m_mask s) (m_mask s) (heap s) of
              Inl e \<Rightarrow> Inl e
            | Inr (msk, m) \<Rightarrow>
                (case Axpy 1 msk gradient_wrt_input m of
                   Inl e \<Rightarrow> Inl e
                 | Inr m' \<Rightarrow> Inr (s\<lparr>heap := m', m_mask := msk\<rparr>))))"

subsection \<open>Accelerator kernels\<close>

text \<open>
  \<^verbatim>\<open>cudnnDropoutForward\<close>: the descriptors must be set and describe equally many elements,
  and the work space must be large enough; then one mask value per element is drawn from the
  layer's accelerator generator state, the output buffer receives input times mask, and the
  mask stays in the work space. The output buffer is taken from the matrix as a mutable
  buffer.
\<close>

definition cudnnDropoutForward ::
  "dropout_desc option \<Rightarrow> tensor_desc option \<Rightarrow> AbsDistMat \<Rightarrow> tensor_desc option \<Rightarrow> AbsDistMat
     \<Rightarrow> dropout \<Rightarrow> error + dropout" where
  "cudnnDropoutForward ddesc xdesc x ydesc y s =
     (if Locked y then Inl (LogicError ''mutable access to a locked view'')
      else case (ddesc, xdesc, ydesc) of
        (Some dd, Some xd, Some yd) \<Rightarrow>
          if numel (desc_shape xd) \<noteq> numel (desc_shape yd)
             \<or> m_reserve_space_Height s * sizeof_DataType < reserve_space_size s (numel (desc_shape xd))
             \<or> length (cells (heap s) (Buffer x)) < numel (desc_shape xd)
             \<or> length (cells (heap s) (Buffer y)) < numel (desc_shape xd)
          then Inl (CudnnError ''cudnnDropoutForward'')
          else
            let keep = 1 - dropout_probability dd;
                msk = map (\<lambda>u. if canonical u < keep then 1 / keep else 0)
                         (stake (numel (desc_shape xd)) (m_states s))
            in Inr (s\<lparr>heap := store (heap s) y
                                  (map2 (*) (take (numel (desc_shape xd)) (cells (heap s) (Buffer x))) msk),
                       m_states := sdrop (numel (desc_shape xd)) (m_states s),
                       reserve_mask := msk,
                       kernel_calls := kernel_calls s @
                         [\<lparr>kernel_name = ''cudnnDropoutForward'',
                           descriptor_buffer_pairs = [(xd, x), (yd, y)]\<rparr>]\<rparr>)
      | _ \<Rightarrow> Inl (CudnnError ''cudnnDropoutForward''))"

text \<open>
  \<^verbatim>\<open>cudnnDropoutBackward\<close>: under the same checks, the \<open>dx\<close> buffer receives \<open>dy\<close> times the
  mask kept in the work space. The kernel writes \<open>dx\<close>; it does not read it.
\<close>

definition cudnnDropoutBackward ::
  "dropout_desc option \<Rightarrow> tensor_desc option \<Rightarrow> AbsDistMat \<Rightarrow> tensor_desc option \<Rightarrow> AbsDistMat
     \<Rightarrow> dropout \<Rightarrow> error + dropout" where
  "cudnnDropoutBackward ddesc dydesc dy dxdesc dx s =
     (if Locked dx then Inl (LogicError ''mutable access to a locked view'')
      else case (ddesc, dydesc, dxdesc) of
        (Some dd, Some dyd, Some dxd) \<Rightarrow>
          if numel (desc_shape dyd) \<noteq> numel (desc_shape dxd)
             \<or> m_reserve_space_Height s * sizeof_DataType < reserve_space_size s (numel (desc_shape dyd))
             \<or> length (cells (heap s) (Buffer dy)) < numel (desc_shape dyd)
             \<or> length (cells (heap s) (Buffer dx)) < numel (desc_shape dyd)
          then Inl (CudnnError ''cudnnDropoutBackward'')
          else Inr (s\<lparr>heap := store (heap s) dx
                                  (map2 (*) (take (numel (desc_shape dyd)) (cells (heap s) (Buffer dy)))
                                     (reserve_mask s)),
                       kernel_calls := kernel_calls s @
                         [\<lparr>kernel_name = ''cudnnDropoutBackward'',
                           descriptor_buffer_pairs = [(dyd, dy), (dxd, dx)]\<rparr>]\<rparr>)
      | _ \<Rightarrow> Inl (CudnnError ''cudnnDropoutBackward''))"

subsection \<open>Accelerator passes\<close>

text \<open>
  Without the accelerator library in the build both passes throw. Taking the local matrix of
  a distributed matrix (\<^verbatim>\<open>LockedMatrix()\<close>, \<^verbatim>\<open>Matrix()\<close>) has no effect; on one process the
  local matrix is the matrix itself.

  \<^verbatim>\<open>fp_compute_gpu\<close>. Disabled: the output becomes a locked view of the input. With no local
  data nothing happens. Otherwise the input descriptor is set from the local input and the
  output descriptor from the local output, the work space is enlarged when the library asks
  for more, and the forward kernel runs.
\<close>

definition fp_compute_gpu :: "dropout \<Rightarrow> error + dropout" where
  "fp_compute_gpu s =
     (if \<not> LBANN_HAS_CUDNN s then Inl (LBANN_ERROR ''cuDNN not detected'')
      else
        let input = prev_activations s;
            local_input = input;
            output = activations s;
            local_output = output in
        if get_execution_mode s \<noteq> training \<or> m_keep_prob s < 0
        then Inr (s\<lparr>activations := LockedView output input\<rparr>)
        else if Height local_input < 1 \<and> Width local_input < 1 then Inr s
        else
          let s1 = s\<lparr>m_input_cudnn_desc := set_tensor_desc (m_input_cudnn_desc s) local_input\<rparr>;
              s2 = s1\<lparr>m_output_cudnn_desc := set_tensor_desc (m_output_cudnn_desc s1) local_output\<rparr>;
              size = reserve_space_size s2 (case m_input_cudnn_desc s2 of Some d \<Rightarrow> numel (desc_shape d) | None \<Rightarrow> 0);
              s3 = (if size > m_reserve_space_Height s2 * sizeof_DataType
                    then s2\<lparr>m_reserve_space_Height := (size + sizeof_DataType - 1) div sizeof_DataType\<rparr>
                    else s2)
          in cudnnDropoutForward (m_dropout_cudnn_desc s3)
               (m_input_cudnn_desc s3) local_input
               (m_output_cudnn_desc s3) local_output s3)"

text \<open>
  \<^verbatim>\<open>bp_compute_gpu\<close>. Disabled: the gradient with respect to the output is added to the
  gradient with respect to the input. Enabled, with local data: the descriptor
  \<open>m_gradient_wrt_input_cudnn_desc\<close> is set from the local gradient with respect to the
  output and \<open>m_gradient_wrt_output_cudnn_desc\<close> from the local gradient with respect to the
  input, as the source has it, and the backward kernel runs with the gradient with respect to
  the input as its output buffer.
\<close>

definition bp_compute_gpu :: "dropout \<Rightarrow> error + dropout" where
  "bp_compute_gpu s =
     (if \<not> LBANN_HAS_CUDNN s then Inl (LBANN_ERROR ''cuDNN not detected'')
      else
        let gradient_wrt_output = prev_error_signals s;
            local_gradient_wrt_output = gradient_wrt_output;
            gradient_wrt_input = error_signals s;
            local_gradient_wrt_input = gradient_wrt_input in
        if get_execution_mode s \<noteq> training \<or> m_keep_prob s < 0
        then (case Axpy 1 gradient_wrt_output gradient_wrt_input (heap s) of
                Inl e \<Rightarrow> Inl e
              | Inr m \<Rightarrow> Inr (s\<lparr>heap := m\<rparr>))
        else if Height local_gradient_wrt_input > 0 \<and> Width local_gradient_wrt_input > 0
        then
          let s1 = s\<lparr>m_gradient_wrt_input_cudnn_desc :=
                       set_tensor_desc (m_gradient_wrt_input_cudnn_desc s) local_gradient_wrt_output\<rparr>;
              s2 = s1\<lparr>m_gradient_wrt_output_cudnn_desc :=
                       set_tensor_desc (m_gradient_wrt_output_cudnn_desc s1) local_gradient_wrt_input\<rparr>
          in cudnnDropoutBackward (m_dropout_cudnn_desc s2)
               (m_gradient_wrt_output_cudnn_desc s2) local_gradient_wrt_output
               (m_gradient_wrt_input_cudnn_desc s2) local_gradient_wrt_input s2
        else Inr s)"

subsection \<open>Dispatch\<close>

definition fp_compute :: "dropout \<Rightarrow> error + dropout" where
  "fp_compute s = (if using_gpus s then fp_compute_gpu s else fp_compute_cpu s)"

definition bp_compute :: "dropout \<Rightarrow> error + dropout" where
  "bp_compute s = (if using_gpus s then bp_compute_gpu s else bp_compute_cpu s)"

section \<open>Ownership conditions and observations\<close>

text \<open>
  A matrix is allocated when its buffer has been handed out by the allocator and is large
  enough for the matrix's dimensions.
\<close>

definition allocated :: "memory \<Rightarrow> AbsDistMat \<Rightarrow> bool" where
  "allocated m A = (Buffer A < next_free m \<and> Height A * Width A \<le> length (cells m (Buffer A)))"

text \<open>
  What the surrounding layer machinery provides before an enabled forward pass: the layer
  owns its mask and its output (neither is a locked view), the input is allocated, and the
  three buffers are different buffers handed out by the allocator.
\<close>

definition forward_ready :: "dropout \<Rightarrow> bool" where
  "forward_ready s =
     (\<not> Locked (m_mask s) \<and> \<not> Locked (activations s)
      \<and> allocated (heap s) (prev_activations s)
      \<and> Buffer (m_mask s) < next_free (heap s)
      \<and> Buffer (activations s) < next_free (heap s)
      \<and> distinct [Buffer (prev_activations s), Buffer (m_mask s), Buffer (activations s)])"

text \<open>
  What it provides before an enabled backward pass: the layer owns its mask and its
  gradient with respect to the input, the two gradients and the mask are allocated with one
  common shape, and their buffers are different.
\<close>

definition backward_ready :: "dropout \<Rightarrow> bool" where
  "backward_ready s =
     (\<not> Locked (m_mask s) \<and> \<not> Locked (error_signals s)
      \<and> allocated (heap s) (prev_error_signals s)
      \<and> allocated (heap s) (m_mask s)
      \<and> allocated (heap s) (error_signals s)
      \<and> local_shape (prev_error_signals s) = local_shape (m_mask s)
      \<and> local_shape (error_signals s) = local_shape (m_mask s)
      \<and> distinct [Buffer (prev_error_signals s), Buffer (m_mask s), Buffer (error_signals s)])"

text \<open>The entries of the layer's matrices, read through the layer's memory.\<close>

definition input_entries :: "dropout \<Rightarrow> DataType list" where
  "input_entries s = entries (heap s) (prev_activations s)"

definition output_entries :: "dropout \<Rightarrow> DataType list" where
  "output_entries s = entries (heap s) (activations s)"

definition mask_entries :: "dropout \<Rightarrow> DataType list" where
  "mask_entries s = entries (heap s) (m_mask s)"

definition gradient_wrt_output_entries :: "dropout \<Rightarrow> DataType list" where
  "gradient_wrt_output_entries s = entries (heap s) (prev_error_signals s)"

definition gradient_wrt_input_entries :: "dropout \<Rightarrow> DataType list" where
  "gradient_wrt_input_entries s = entries (heap s) (error_signals s)"

definition mask_shape :: "dropout \<Rightarrow> shape" where
  "mask_shape s = local_shape (m_mask s)"

definition mask_buffer_cells :: "dropout \<Rightarrow> DataType list" where
  "mask_buffer_cells s = cells (heap s) (Buffer (m_mask s))"

text \<open>An observation of the state a pass returns; an error stays the error.\<close>

definition observe :: "(dropout \<Rightarrow> 'a) \<Rightarrow> error + dropout \<Rightarrow> error + 'a" where
  "observe f r = (case r of Inl e \<Rightarrow> Inl e | Inr s \<Rightarrow> Inr (f s))"

section \<open>Concrete layers\<close>

text \<open>A covariance layer whose parents output a 4 x 4 and a 4 x 5 tensor.\<close>

definition cov_example :: covariance_layer where
  "cov_example = \<lparr>layer_type = ''covariance'', layer_name = ''cov'',
     parent_layers = [\<lparr>parent_name = ''a'', parent_output_dims = [4, 4]\<rparr>,
                      \<lparr>parent_name = ''b'', parent_output_dims = [4, 5]\<rparr>],
     output_dims = [], prev_activations_dist = \<lparr>colDist = STAR, rowDist = VC\<rparr>,
     m_means = None, m_workspace = None\<rparr>"

text \<open>The same covariance layer when both parents output a 4 x 4 tensor.\<close>

definition cov_equal_example :: covariance_layer where
  "cov_equal_example =
     cov_example\<lparr>parent_layers := [\<lparr>parent_name = ''a'', parent_output_dims = [4, 4]\<rparr>,
                                    \<lparr>parent_name = ''b'', parent_output_dims = [4, 4]\<rparr>]\<rparr>"

text \<open>
  A dropout layer in training mode on the CPU with keep probability 1/2, over 2 x 1
  matrices: input \<open>[3, -2]\<close> at address 0, output at address 1, mask \<open>[2, 0]\<close> at address
  2, gradient with respect to the output \<open>[3, 4]\<close> at address 3, gradient with respect to
  the input \<open>[5, 7]\<close> (what other children have accumulated) at address 4. The fast
  generator delivers the variates 1/4, 3/4 and then 0 forever.
\<close>

definition example_heap :: memory where
  "example_heap =
     \<lparr>cells = (\<lambda>a. [])(0 := [3, - 2], 1 := [0, 0], 2 := [2, 0], 3 := [3, 4], 4 := [5, 7]),
      next_free = 5\<rparr>"

definition example_matrix :: "addr \<Rightarrow> AbsDistMat" where
  "example_matrix a = \<lparr>Height = 2, Width = 1, Buffer = a, Locked = False\<rparr>"

definition dropout_example :: dropout where
  "dropout_example =
     \<lparr>get_execution_mode = training, using_gpus = False, LBANN_HAS_CUDNN = True,
      LBANN_SEQUENTIAL_CONSISTENCY = False, m_keep_prob = 1 / 2, heap = example_heap,
      prev_activations = example_matrix 0, activations = example_matrix 1,
      prev_error_signals = example_matrix 3, error_signals = example_matrix 4,
      m_mask = example_matrix 2,
      fast_generator = variate_of (1 / 4) ## variate_of (3 / 4) ## sconst (variate_of 0),
      generator = sconst (variate_of 0),
      m_dropout_cudnn_desc = Some \<lparr>dropout_probability = 1 / 2\<rparr>,
      m_input_cudnn_desc = None, m_output_cudnn_desc = None,
      m_gradient_wrt_output_cudnn_desc = None, m_gradient_wrt_input_cudnn_desc = None,
      m_states = sconst (variate_of 0), m_reserve_space_Height = 1, reserve_mask = [2, 0],
      reserve_space_size = (\<lambda>n. n), kernel_calls = []\<rparr>"

text \<open>The same layer in a build with sequential consistency.\<close>

definition dropout_sequential_example :: dropout where
  "dropout_sequential_example = dropout_example\<lparr>LBANN_SEQUENTIAL_CONSISTENCY := True\<rparr>"

text \<open>The same layer while the model evaluates.\<close>

definition dropout_evaluation_example :: dropout where
  "dropout_evaluation_example = dropout_example\<lparr>get_execution_mode := evaluation\<rparr>"

text \<open>The layer on the accelerator, in training mode, with the negative keep probability.\<close>

definition dropout_sentinel_example :: dropout where
  "dropout_sentinel_example = dropout_example\<lparr>using_gpus := True, m_keep_prob := - 1\<rparr>"

text \<open>
  The same layer with keep probability 1, its 2 x 1 mask holding \<open>[3, 4]\<close> from before the
  pass.
\<close>

definition dropout_keep_all :: dropout where
  "dropout_keep_all =
     dropout_example\<lparr>m_keep_prob := 1,
       heap := example_heap\<lparr>cells := (cells example_heap)(2 := [3, 4])\<rparr>\<rparr>"

text \<open>The same layer on the accelerator.\<close>

definition dropout_gpu_example :: dropout where
  "dropout_gpu_example = dropout_example\<lparr>using_gpus := True\<rparr>"

section \<open>Properties of the activation layers\<close>

text \<open>
  C3 (identity layer). The scalar function is the identity, but the scalar derivative returns
  its argument instead of the constant 1: at \<open>z = 2\<close> the code yields 2.
\<close>

theorem id_layer_gradient_returns_argument:
  "id_layer_activation_function 2 = 2
   \<and> id_layer_activation_function_gradient 2 = 2
   \<and> id_layer_activation_function_gradient 2 \<noteq> 1"
  by (simp add: id_layer_activation_function_def id_layer_activation_function_gradient_def)

text \<open>
  C8 (rectified linear unit). For every \<open>z\<close>: \<open>f z = max z 0\<close>, \<open>f z\<close> is never negative,
  \<open>f' z\<close> is 1 for positive \<open>z\<close> and 0 otherwise, and \<open>f' 0\<close> is exactly 0.
\<close>

theorem relu_layer_scalar_functions:
  "relu_layer_activation z = max z 0
   \<and> 0 \<le> relu_layer_activation z
   \<and> relu_layer_activation_derivative z = (if z > 0 then 1 else 0)
   \<and> relu_layer_activation_derivative 0 = 0"
  by (simp add: relu_layer_activation_def relu_layer_activation_derivative_def max_def)

text \<open>
  C9 (idempotence of the rectified linear unit), as stated: idempotence would have to fail
  on a negative input. It does not: at \<open>x = -1\<close> the function is idempotent although the
  input is negative.
\<close>

theorem relu_layer_idempotent_at_negative_input:
  "relu_layer_activation (relu_layer_activation (- 1)) = relu_layer_activation (- 1)
   \<and> \<not> (0 \<le> (- 1 :: DataType))"
  by (simp add: relu_layer_activation_def)

text \<open>
  C9, amended: the rectified linear unit is idempotent on every input, negative or not; what
  holds exactly on the non-negative inputs is that the function leaves its input unchanged.
\<close>

theorem relu_layer_activation_idempotent:
  "relu_layer_activation (relu_layer_activation x) = relu_layer_activation x
   \<and> (relu_layer_activation x = x) = (0 \<le> x)"
  by (auto simp add: relu_layer_activation_def)

section \<open>Properties of the covariance layer\<close>

lemma dims_loop_append: "dims_loop j ds err = err @ dims_loop j ds []"
proof (induction ds arbitrary: j err)
  case Nil
  show ?case by simp
next
  case (Cons d ds)
  have "dims_loop j (d # ds) err = dims_loop (Suc j) ds (err @ (if j > 0 then '' x '' else []) @ show_int d)"
    by simp
  also have "\<dots> = (err @ (if j > 0 then '' x '' else []) @ show_int d) @ dims_loop (Suc j) ds []"
    by (rule Cons.IH)
  also have "\<dots> = err @ dims_loop (Suc j) ds ([] @ (if j > 0 then '' x '' else []) @ show_int d)"
    using Cons.IH [of "Suc j" "[] @ (if j > 0 then '' x '' else []) @ show_int d"] by simp
  finally show ?case by simp
qed

lemma parents_loop_append: "parents_loop i ps err = err @ parents_loop i ps []"
proof (induction ps arbitrary: i err)
  case Nil
  show ?case by simp
next
  case (Cons p ps)
  let ?seg = "(if i > 0 then '', '' else []) @ ''layer '' @ [dquote] @ parent_name p
             @ [dquote] @ '' outputs ''"
  have a: "parents_loop i (p # ps) err = (err @ ?seg @ dims_loop 0 (parent_output_dims p) []) @ parents_loop (Suc i) ps []"
    using Cons.IH [of "Suc i" "dims_loop 0 (parent_output_dims p) (err @ ?seg)"]
      dims_loop_append [of 0 "parent_output_dims p" "err @ ?seg"] by simp
  have b: "parents_loop i (p # ps) [] = (?seg @ dims_loop 0 (parent_output_dims p) []) @ parents_loop (Suc i) ps []"
    using Cons.IH [of "Suc i" "dims_loop 0 (parent_output_dims p) ([] @ ?seg)"]
      dims_loop_append [of 0 "parent_output_dims p" "[] @ ?seg"] by simp
  show ?case unfolding a b by simp
qed

lemma parents_loop_contains:
  "p \<in> set ps \<Longrightarrow>
   sublist (''layer '' @ [dquote] @ parent_name p @ [dquote] @ '' outputs ''
              @ dims_loop 0 (parent_output_dims p) [])
     (parents_loop i ps err)"
proof (induction ps arbitrary: i err)
  case Nil
  then show ?case by simp
next
  case (Cons q ps)
  let ?seg = "(if i > 0 then '', '' else []) @ ''layer '' @ [dquote] @ parent_name q
             @ [dquote] @ '' outputs ''"
  let ?text = "\<lambda>p. ''layer '' @ [dquote] @ parent_name p @ [dquote] @ '' outputs ''
                     @ dims_loop 0 (parent_output_dims p) []"
  have unfold: "parents_loop i (q # ps) err
      = (err @ (if i > 0 then '', '' else [])) @ ?text q @ parents_loop (Suc i) ps []"
    using parents_loop_append [of "Suc i" ps "dims_loop 0 (parent_output_dims q) (err @ ?seg)"]
      dims_loop_append [of 0 "parent_output_dims q" "err @ ?seg"]
    by simp
  show ?case
  proof (cases "p = q")
    case True
    show ?thesis unfolding unfold True by (rule sublist_appendI)
  next
    case False
    with Cons.prems have "p \<in> set ps" by simp
    then have "sublist (?text p)
        (parents_loop (Suc i) ps (dims_loop 0 (parent_output_dims q) (err @ ?seg)))"
      by (rule Cons.IH)
    then show ?thesis by simp
  qed
qed

text \<open>The inner loop prints the dimensions in order with \<^verbatim>\<open>" x "\<close> between them.\<close>

lemma dims_loop_separated:
  "dims_loop j ds [] =
     (if ds = [] then [] else (if j > 0 then '' x '' else []) @ separated '' x '' (map show_int ds))"
proof (induction ds arbitrary: j)
  case Nil
  show ?case by simp
next
  case (Cons d ds)
  have "dims_loop j (d # ds) [] = ((if j > 0 then '' x '' else []) @ show_int d) @ dims_loop (Suc j) ds []"
    using dims_loop_append [of "Suc j" ds "(if j > 0 then '' x '' else []) @ show_int d"] by simp
  also have "dims_loop (Suc j) ds [] = (if ds = [] then [] else '' x '' @ separated '' x '' (map show_int ds))"
    by (simp add: Cons.IH)
  finally show ?case
    by (cases ds) simp_all
qed

text \<open>What is printed for an integer is its decimal numeral.\<close>

lemma digit_char_digit:
  assumes "d < 10"
  shows "is_digit (digit_char d)" and "digit_value (digit_char d) = d"
  using assms by (simp_all add: is_digit_def digit_value_def digit_char_def of_char_of)

lemma read_digits_snoc: "read_digits (t @ [c]) = 10 * read_digits t + digit_value c"
  by (simp add: read_digits_def)

lemma show_nat_numeral:
  "show_nat n \<noteq> [] \<and> list_all is_digit (show_nat n) \<and> read_digits (show_nat n) = n"
proof (induction n rule: show_nat.induct)
  case (1 n)
  show ?case
  proof (cases "n < 10")
    case True
    then have "show_nat n = [digit_char n]"
      by (simp add: show_nat.simps)
    with True show ?thesis
      by (simp add: digit_char_digit read_digits_def)
  next
    case False
    then have eq: "show_nat n = show_nat (n div 10) @ [digit_char (n mod 10)]"
      by (subst show_nat.simps) simp
    have "n mod 10 < 10"
      by simp
    with "1" False show ?thesis
      unfolding eq by (simp add: digit_char_digit read_digits_snoc)
  qed
qed

lemma show_int_numeral: "decimal_numeral (show_int i) i"
  using show_nat_numeral [of "nat i"] show_nat_numeral [of "nat (- i)"]
  by (simp add: decimal_numeral_def show_int_def)

lemma dims_numerals: "list_all2 decimal_numeral (map show_int ds) ds"
  by (induction ds) (simp_all add: show_int_numeral)

lemma get_input_dims_ok:
  "i < length (parent_layers l) \<Longrightarrow>
   get_input_dims (l\<lparr>output_dims := ds\<rparr>) i = Inr (parent_output_dims (parent_layers l ! i))"
  by (simp add: get_input_dims_def get_num_parents_def)

text \<open>
  C6 (covariance layer, \<^verbatim>\<open>setup_dims\<close>). With two (or more) parents: when the dimensions of
  the first two parents differ, \<^verbatim>\<open>setup_dims\<close> throws, the layer it leaves behind has no
  buffer it did not have before, and the message names every parent: it contains
  \<^verbatim>\<open>layer "<name>" outputs \<close> followed by the decimal numerals of that parent's dimensions
  separated by \<^verbatim>\<open>" x "\<close>; when the dimensions are equal, \<^verbatim>\<open>setup_dims\<close> returns normally,
  again without touching a buffer.
\<close>

theorem covariance_setup_dims_shape_check:
  assumes "2 \<le> length (parent_layers l)"
  shows "(parent_output_dims (parent_layers l ! 0) \<noteq> parent_output_dims (parent_layers l ! 1) \<longrightarrow>
           (\<exists>msg l'. setup_dims l = Inl (LBANN_ERROR msg, l')
              \<and> m_means l' = m_means l \<and> m_workspace l' = m_workspace l
              \<and> (\<forall>p \<in> set (parent_layers l). names_parent msg p)))
       \<and> (parent_output_dims (parent_layers l ! 0) = parent_output_dims (parent_layers l ! 1) \<longrightarrow>
           (\<exists>l'. setup_dims l = Inr l'
              \<and> m_means l' = m_means l \<and> m_workspace l' = m_workspace l))"
proof -
  from assms have i0: "0 < length (parent_layers l)" and i1: "1 < length (parent_layers l)"
    by linarith+
  let ?pre = "layer_type l @ '' layer '' @ [dquote] @ layer_name l @ [dquote] @ '' ''
                @ ''has input tensors with different dimensions (''"
  let ?msg = "?pre @ parents_loop 0 (parent_layers l) [] @ '')''"
  let ?l = "l\<lparr>output_dims := [1]\<rparr>"
  have loop: "parents_loop 0 (parent_layers l) ?pre = ?pre @ parents_loop 0 (parent_layers l) []"
    by (rule parents_loop_append)
  have names: "\<forall>p \<in> set (parent_layers l). names_parent ?msg p"
  proof
    fix p assume "p \<in> set (parent_layers l)"
    then have "sublist (''layer '' @ [dquote] @ parent_name p @ [dquote] @ '' outputs ''
                          @ dims_loop 0 (parent_output_dims p) [])
                 (parents_loop 0 (parent_layers l) [])"
      by (rule parents_loop_contains)
    then have "sublist (''layer '' @ [dquote] @ parent_name p @ [dquote] @ '' outputs ''
                          @ dims_loop 0 (parent_output_dims p) []) ?msg"
      by (meson sublist_append)
    moreover have "dims_loop 0 (parent_output_dims p) []
        = separated '' x '' (map show_int (parent_output_dims p))"
      by (simp add: dims_loop_separated)
    ultimately have "sublist (''layer '' @ [dquote] @ parent_name p @ [dquote] @ '' outputs ''
                          @ separated '' x '' (map show_int (parent_output_dims p))) ?msg"
      by simp
    with dims_numerals [of "parent_output_dims p"] show "names_parent ?msg p"
      unfolding names_parent_def by blast
  qed
  have sel: "layer_type ?l = layer_type l" "layer_name ?l = layer_name l"
    "parent_layers ?l = parent_layers l"
    by simp_all
  have differ: "setup_dims l = Inl (LBANN_ERROR ?msg, ?l)"
    if "parent_output_dims (parent_layers l ! 0) \<noteq> parent_output_dims (parent_layers l ! 1)"
    using that unfolding setup_dims_def Let_def
    by (simp only: get_input_dims_ok [OF i0] get_input_dims_ok [OF i1] sum.case if_True
          simp_thms sel loop append_assoc)
  have equal: "setup_dims l = Inr ?l"
    if "parent_output_dims (parent_layers l ! 0) = parent_output_dims (parent_layers l ! 1)"
    using that unfolding setup_dims_def Let_def
    by (simp only: get_input_dims_ok [OF i0] get_input_dims_ok [OF i1] sum.case if_False
          simp_thms sel)
  have frame: "m_means ?l = m_means l \<and> m_workspace ?l = m_workspace l"
    by simp
  show ?thesis
    using names differ equal frame by blast
qed

lemma show_int_4: "show_int 4 = ''4''"
  by code_simp

lemma show_int_5: "show_int 5 = ''5''"
  by code_simp

lemma setup_dims_cov_example:
  "setup_dims cov_example =
     Inl (LBANN_ERROR
            (''covariance layer '' @ [dquote] @ ''cov'' @ [dquote]
               @ '' has input tensors with different dimensions (''
               @ ''layer '' @ [dquote] @ ''a'' @ [dquote] @ '' outputs 4 x 4, ''
               @ ''layer '' @ [dquote] @ ''b'' @ [dquote] @ '' outputs 4 x 5)''),
          cov_example\<lparr>output_dims := [1]\<rparr>)"
  by (simp add: cov_example_def setup_dims_def get_input_dims_def get_num_parents_def
        show_int_4 show_int_5)

theorem covariance_setup_dims_shape_check_witness:
  "2 \<le> length (parent_layers cov_example)
   \<and> parent_output_dims (parent_layers cov_example ! 0) \<noteq> parent_output_dims (parent_layers cov_example ! 1)
   \<and> setup_dims cov_example =
       Inl (LBANN_ERROR
              (''covariance layer '' @ [dquote] @ ''cov'' @ [dquote]
                 @ '' has input tensors with different dimensions (''
                 @ ''layer '' @ [dquote] @ ''a'' @ [dquote] @ '' outputs 4 x 4, ''
                 @ ''layer '' @ [dquote] @ ''b'' @ [dquote] @ '' outputs 4 x 5)''),
            cov_example\<lparr>output_dims := [1]\<rparr>)
   \<and> m_means (cov_example\<lparr>output_dims := [1]\<rparr>) = None
   \<and> m_workspace (cov_example\<lparr>output_dims := [1]\<rparr>) = None
   \<and> names_parent
        (''covariance layer '' @ [dquote] @ ''cov'' @ [dquote]
           @ '' has input tensors with different dimensions (''
           @ ''layer '' @ [dquote] @ ''a'' @ [dquote] @ '' outputs 4 x 4, ''
           @ ''layer '' @ [dquote] @ ''b'' @ [dquote] @ '' outputs 4 x 5)'')
        (parent_layers cov_example ! 0)
   \<and> names_parent
        (''covariance layer '' @ [dquote] @ ''cov'' @ [dquote]
           @ '' has input tensors with different dimensions (''
           @ ''layer '' @ [dquote] @ ''a'' @ [dquote] @ '' outputs 4 x 4, ''
           @ ''layer '' @ [dquote] @ ''b'' @ [dquote] @ '' outputs 4 x 5)'')
        (parent_layers cov_example ! 1)
   \<and> 2 \<le> length (parent_layers cov_equal_example)
   \<and> parent_output_dims (parent_layers cov_equal_example ! 0)
       = parent_output_dims (parent_layers cov_equal_example ! 1)
   \<and> setup_dims cov_equal_example = Inr (cov_equal_example\<lparr>output_dims := [1]\<rparr>)"
proof -
  have len: "2 \<le> length (parent_layers cov_example)"
    and differ: "parent_output_dims (parent_layers cov_example ! 0)
                   \<noteq> parent_output_dims (parent_layers cov_example ! 1)"
    and mem: "parent_layers cov_example ! 0 \<in> set (parent_layers cov_example)"
      "parent_layers cov_example ! 1 \<in> set (parent_layers cov_example)"
    by (simp_all add: cov_example_def)
  from covariance_setup_dims_shape_check [OF len] differ
  obtain msg l' where thrown: "setup_dims cov_example = Inl (LBANN_ERROR msg, l')"
      and names: "\<forall>p \<in> set (parent_layers cov_example). names_parent msg p"
    by blast
  from thrown have msg: "msg = ''covariance layer '' @ [dquote] @ ''cov'' @ [dquote]
           @ '' has input tensors with different dimensions (''
           @ ''layer '' @ [dquote] @ ''a'' @ [dquote] @ '' outputs 4 x 4, ''
           @ ''layer '' @ [dquote] @ ''b'' @ [dquote] @ '' outputs 4 x 5)''"
      and left: "l' = cov_example\<lparr>output_dims := [1]\<rparr>"
    unfolding setup_dims_cov_example by simp_all
  have len': "2 \<le> length (parent_layers cov_equal_example)"
    and same: "parent_output_dims (parent_layers cov_equal_example ! 0)
                 = parent_output_dims (parent_layers cov_equal_example ! 1)"
    by (simp_all add: cov_equal_example_def cov_example_def)
  have equal: "setup_dims cov_equal_example = Inr (cov_equal_example\<lparr>output_dims := [1]\<rparr>)"
    by (simp add: cov_equal_example_def cov_example_def setup_dims_def get_input_dims_def
          get_num_parents_def)
  have none: "m_means (cov_example\<lparr>output_dims := [1]\<rparr>) = None"
    "m_workspace (cov_example\<lparr>output_dims := [1]\<rparr>) = None"
    by (simp_all add: cov_example_def)
  from names mem have "names_parent msg (parent_layers cov_example ! 0)"
    "names_parent msg (parent_layers cov_example ! 1)"
    by blast+
  with len differ len' same equal none show ?thesis
    unfolding msg [symmetric] using thrown left by simp
qed

section \<open>Properties of the dropout layer\<close>

subsection \<open>Memory and matrix operations\<close>

lemma length_entries: "allocated m A \<Longrightarrow> length (entries m A) = Height A * Width A"
  by (simp add: allocated_def entries_def)

lemma entries_store_same:
  "length xs = Height A * Width A \<Longrightarrow> Buffer B = Buffer A \<Longrightarrow> Height B = Height A \<Longrightarrow>
   Width B = Width A \<Longrightarrow> entries (store m A xs) B = xs"
  by (simp add: entries_def store_def)

lemma entries_store_other:
  "Buffer B \<noteq> Buffer A \<Longrightarrow> entries (store m A xs) B = entries m B"
  by (simp add: entries_def store_def)

lemma cells_store_other:
  "a \<noteq> Buffer A \<Longrightarrow> cells (store m A xs) a = cells m a"
  by (simp add: store_def)

lemma next_free_store: "next_free (store m A xs) = next_free m"
  by (simp add: store_def)

lemma allocated_store:
  "allocated m B \<Longrightarrow> length xs \<le> length (cells m (Buffer A)) \<Longrightarrow> allocated (store m A xs) B"
  by (auto simp add: allocated_def store_def)

lemma Axpy_conformal:
  assumes "\<not> Locked Y" "Height X = Height Y" "Width X = Width Y" "allocated m X" "allocated m Y"
  shows "\<exists>m'. Axpy alpha X Y m = Inr m'
           \<and> entries m' Y = map2 (\<lambda>x y. alpha * x + y) (entries m X) (entries m Y)
           \<and> next_free m' = next_free m
           \<and> (\<forall>a. a \<noteq> Buffer Y \<longrightarrow> cells m' a = cells m a)
           \<and> length (cells m' (Buffer Y)) = length (cells m (Buffer Y))"
proof -
  let ?new = "map2 (\<lambda>x y. alpha * x + y) (entries m X) (entries m Y)"
  have len: "length ?new = Height Y * Width Y"
    using assms by (simp add: length_entries)
  have run: "Axpy alpha X Y m = Inr (store m Y ?new)"
    using assms by (simp add: Axpy_def)
  have "entries (store m Y ?new) Y = ?new"
    using len by (rule entries_store_same) simp_all
  moreover have "length (cells (store m Y ?new) (Buffer Y)) = length (cells m (Buffer Y))"
    using len assms(5) by (simp add: store_def allocated_def)
  ultimately show ?thesis
    using run by (simp add: next_free_store cells_store_other)
qed

text \<open>
  C4 (disabled dropout). Outside training, or with a negative keep probability, and on a layer
  whose device has its accelerator library: the forward pass returns with the output a locked
  view of the input's buffer, of the input's shape, and with the memory exactly as it was (no
  cell copied, nothing allocated) and the mask object untouched. The backward pass, on a
  gradient buffer the layer owns that has the shape of the incoming gradient, adds the
  incoming gradient entry by entry, unscaled, to what the buffer held, leaves the mask object
  and the mask's cells as they were and allocates nothing.
\<close>

theorem dropout_disabled_pass_through:
  assumes "dropout_disabled s" and "using_gpus s \<longrightarrow> LBANN_HAS_CUDNN s"
  shows "(\<exists>s'. fp_compute s = Inr s'
            \<and> Buffer (activations s') = Buffer (prev_activations s)
            \<and> local_shape (activations s') = local_shape (prev_activations s)
            \<and> Locked (activations s')
            \<and> heap s' = heap s
            \<and> m_mask s' = m_mask s)
       \<and> (\<not> Locked (error_signals s)
            \<and> local_shape (prev_error_signals s) = local_shape (error_signals s)
            \<and> allocated (heap s) (prev_error_signals s)
            \<and> allocated (heap s) (error_signals s)
            \<and> Buffer (m_mask s) \<noteq> Buffer (error_signals s) \<longrightarrow>
           (\<exists>s'. bp_compute s = Inr s'
              \<and> entries (heap s') (error_signals s')
                  = map2 (\<lambda>x y. x + y) (entries (heap s) (prev_error_signals s))
                      (entries (heap s) (error_signals s))
              \<and> m_mask s' = m_mask s
              \<and> cells (heap s') (Buffer (m_mask s')) = cells (heap s) (Buffer (m_mask s))
              \<and> next_free (heap s') = next_free (heap s)))"
proof (intro conjI impI)
  from assms(1) have off: "get_execution_mode s \<noteq> training \<or> m_keep_prob s < 0"
    by (simp add: dropout_disabled_def)
  show "\<exists>s'. fp_compute s = Inr s'
            \<and> Buffer (activations s') = Buffer (prev_activations s)
            \<and> local_shape (activations s') = local_shape (prev_activations s)
            \<and> Locked (activations s')
            \<and> heap s' = heap s
            \<and> m_mask s' = m_mask s"
    using off assms(2)
    by (auto simp add: fp_compute_def fp_compute_gpu_def fp_compute_cpu_def Let_def
          LockedView_def local_shape_def)
  assume ready: "\<not> Locked (error_signals s)
            \<and> local_shape (prev_error_signals s) = local_shape (error_signals s)
            \<and> allocated (heap s) (prev_error_signals s)
            \<and> allocated (heap s) (error_signals s)
            \<and> Buffer (m_mask s) \<noteq> Buffer (error_signals s)"
  then obtain m' where ax: "Axpy 1 (prev_error_signals s) (error_signals s) (heap s) = Inr m'"
      and ent: "entries m' (error_signals s)
           = map2 (\<lambda>x y. 1 * x + y) (entries (heap s) (prev_error_signals s))
               (entries (heap s) (error_signals s))"
      and nf: "next_free m' = next_free (heap s)"
      and other: "\<forall>a. a \<noteq> Buffer (error_signals s) \<longrightarrow> cells m' a = cells (heap s) a"
    using Axpy_conformal [of "error_signals s" "prev_error_signals s" "heap s" 1]
    by (auto simp add: local_shape_def)
  have run: "bp_compute s = Inr (s\<lparr>heap := m'\<rparr>)"
    using off assms(2) ax
    by (auto simp add: bp_compute_def bp_compute_gpu_def bp_compute_cpu_def Let_def)
  show "\<exists>s'. bp_compute s = Inr s'
              \<and> entries (heap s') (error_signals s')
                  = map2 (\<lambda>x y. x + y) (entries (heap s) (prev_error_signals s))
                      (entries (heap s) (error_signals s))
              \<and> m_mask s' = m_mask s
              \<and> cells (heap s') (Buffer (m_mask s')) = cells (heap s) (Buffer (m_mask s))
              \<and> next_free (heap s') = next_free (heap s)"
    using run ent nf other ready by simp
qed


theorem dropout_disabled_pass_through_witness:
  "dropout_disabled dropout_evaluation_example
   \<and> observe activations (fp_compute dropout_evaluation_example)
       = Inr \<lparr>Height = 2, Width = 1, Buffer = 0, Locked = True\<rparr>
   \<and> observe heap (fp_compute dropout_evaluation_example) = Inr example_heap
   \<and> observe gradient_wrt_input_entries (bp_compute dropout_evaluation_example) = Inr [8, 11]
   \<and> observe m_mask (bp_compute dropout_evaluation_example) = Inr (example_matrix 2)
   \<and> observe mask_buffer_cells (bp_compute dropout_evaluation_example) = Inr [2, 0]
   \<and> dropout_disabled dropout_sentinel_example
   \<and> get_execution_mode dropout_sentinel_example = training
   \<and> using_gpus dropout_sentinel_example
   \<and> observe activations (fp_compute dropout_sentinel_example)
       = Inr \<lparr>Height = 2, Width = 1, Buffer = 0, Locked = True\<rparr>
   \<and> observe heap (fp_compute dropout_sentinel_example) = Inr example_heap
   \<and> observe gradient_wrt_input_entries (bp_compute dropout_sentinel_example) = Inr [8, 11]
   \<and> observe m_mask (bp_compute dropout_sentinel_example) = Inr (example_matrix 2)"
  using dropout_disabled_pass_through [of dropout_evaluation_example]
    dropout_disabled_pass_through [of dropout_sentinel_example]
  by (simp add: dropout_evaluation_example_def dropout_sentinel_example_def dropout_example_def
        dropout_disabled_def example_matrix_def example_heap_def
        observe_def fp_compute_def fp_compute_cpu_def fp_compute_gpu_def
        bp_compute_def bp_compute_cpu_def bp_compute_gpu_def
        LockedView_def Axpy_def entries_def store_def allocated_def local_shape_def
        gradient_wrt_input_entries_def mask_buffer_cells_def)

subsection \<open>Enabled forward pass on the CPU\<close>

lemma EntrywiseMap_entries_bernoulli:
  "EntrywiseMap_entries
     (\<lambda>z gen. case bernoulli_distribution p gen of (b, gen') \<Rightarrow> (if b then c else d, gen')) zs g
   = (map (\<lambda>u. if canonical u < p then c else d) (stake (length zs) g), sdrop (length zs) g)"
  by (induction zs arbitrary: g) (simp_all add: bernoulli_distribution_def)

lemma Resize_unlocked:
  assumes "\<not> Locked A" "Buffer A < next_free m"
  shows "\<exists>A' m'. Resize h w A m = Inr (A', m')
           \<and> Height A' = h \<and> Width A' = w \<and> \<not> Locked A' \<and> allocated m' A'
           \<and> (Buffer A' = Buffer A \<or> Buffer A' = next_free m)
           \<and> next_free m \<le> next_free m'
           \<and> (\<forall>a. a \<noteq> Buffer A' \<longrightarrow> cells m' a = cells m a)"
  using assms by (simp add: Resize_def allocated_def)

lemma Resize_allocated_same:
  assumes "\<not> Locked A" "allocated m A" "Height A = h" "Width A = w"
  shows "Resize h w A m = Inr (A, m)"
  using assms by (auto simp add: Resize_def allocated_def)

lemma store_store:
  "length xs = length ys \<Longrightarrow> store (store m A xs) A ys = store m A ys"
  by (simp add: store_def fun_eq_iff)

lemma fill_fast:
  assumes "\<not> Locked M" "allocated m M"
  shows "EntrywiseMap M
           (\<lambda>z gen. case bernoulli_distribution p gen of (b, gen') \<Rightarrow> (if b then c else 0, gen'))
           m g
         = Inr (store m M (map (\<lambda>u. if canonical u < p then c else 0) (stake (Height M * Width M) g)),
                sdrop (Height M * Width M) g)"
  using assms
  by (simp add: EntrywiseMap_def EntrywiseMap_entries_bernoulli length_entries)

lemma fill_procdet:
  assumes "\<not> Locked M" "allocated m M" "Height M = h" "Width M = w"
  shows "bernoulli_fill_procdet M h w p m g
         = Inr (M, store m M (map (\<lambda>u. if canonical u < p then 1 else 0) (stake (h * w) g)),
                sdrop (h * w) g)"
  using assms fill_fast [OF assms(1,2), where p = p and c = 1 and g = g]
  by (simp add: bernoulli_fill_procdet_def Resize_allocated_same)

lemma scale_after_fill:
  assumes "\<not> Locked M" "allocated m M" "Height M = h" "Width M = w"
  shows "scale_matrix M c (store m M (map (\<lambda>u. if canonical u < p then 1 else 0) (stake (h * w) g)))
         = Inr (store m M (map (\<lambda>u. if canonical u < p then c else 0) (stake (h * w) g)))"
proof -
  let ?ones = "map (\<lambda>u. if canonical u < p then 1 else (0::real)) (stake (h * w) g)"
  let ?cs = "map (\<lambda>u. if canonical u < p then c else 0) (stake (h * w) g)"
  have e: "entries (store m M ?ones) M = ?ones"
    by (rule entries_store_same) (simp_all add: assms)
  have c: "map (\<lambda>x. x * c) ?ones = ?cs"
    by simp
  have "scale_matrix M c (store m M ?ones)
        = Inr (store (store m M ?ones) M (map (\<lambda>x. x * c) (entries (store m M ?ones) M)))"
    using assms(1) by (simp only: scale_matrix_def if_False)
  also have "\<dots> = Inr (store (store m M ?ones) M ?cs)"
    by (simp only: e c)
  also have "\<dots> = Inr (store m M ?cs)"
    by (simp add: store_store)
  finally show ?thesis .
qed


lemma Hadamard_fresh:
  assumes "Height A = Height B" "Width A = Width B" "\<not> Locked C" "Buffer C < next_free m"
    "allocated m A" "allocated m B" "Buffer A \<noteq> Buffer C" "Buffer B \<noteq> Buffer C"
  shows "\<exists>C' m'. Hadamard A B C m = Inr (C', m')
           \<and> Height C' = Height A \<and> Width C' = Width A
           \<and> entries m' C' = map2 (*) (entries m A) (entries m B)
           \<and> entries m' A = entries m A \<and> entries m' B = entries m B"
proof -
  obtain C' m1 where r: "Resize (Height A) (Width A) C m = Inr (C', m1)"
      and dims: "Height C' = Height A" "Width C' = Width A"
      and buf: "Buffer C' = Buffer C \<or> Buffer C' = next_free m"
      and other: "\<forall>a. a \<noteq> Buffer C' \<longrightarrow> cells m1 a = cells m a"
    using Resize_unlocked [OF assms(3,4), of "Height A" "Width A"] by blast
  from buf assms(5-8) have ne: "Buffer A \<noteq> Buffer C'" "Buffer B \<noteq> Buffer C'"
    by (auto simp add: allocated_def)
  from ne other have same: "entries m1 A = entries m A" "entries m1 B = entries m B"
    by (simp_all add: entries_def)
  let ?prod = "map2 (*) (entries m A) (entries m B)"
  have len: "length ?prod = Height C' * Width C'"
    using assms(1,2,5,6) dims by (simp add: length_entries)
  have run: "Hadamard A B C m = Inr (C', store m1 C' ?prod)"
    using assms(1,2) r same by (simp add: Hadamard_def)
  have "entries (store m1 C' ?prod) C' = ?prod"
    using len by (rule entries_store_same) simp_all
  moreover have "entries (store m1 C' ?prod) A = entries m A"
    using ne same by (simp add: entries_store_other)
  moreover have "entries (store m1 C' ?prod) B = entries m B"
    using ne same by (simp add: entries_store_other)
  ultimately show ?thesis
    using run dims by simp
qed

lemma fp_compute_cpu_enabled:
  assumes mode: "get_execution_mode s = training" and keep: "0 \<le> m_keep_prob s"
    and ready: "forward_ready s"
  shows "\<exists>s'. fp_compute_cpu s = Inr s'
           \<and> local_shape (m_mask s') = local_shape (prev_activations s)
           \<and> local_shape (activations s') = local_shape (prev_activations s)
           \<and> entries (heap s') (m_mask s')
               = map (\<lambda>u. if canonical u < m_keep_prob s then 1 / m_keep_prob s else 0)
                   (stake (Height (prev_activations s) * Width (prev_activations s))
                      (if LBANN_SEQUENTIAL_CONSISTENCY s then generator s else fast_generator s))
           \<and> entries (heap s') (activations s')
               = map2 (*) (entries (heap s) (prev_activations s)) (entries (heap s') (m_mask s'))
           \<and> prev_activations s' = prev_activations s
           \<and> entries (heap s') (prev_activations s') = entries (heap s) (prev_activations s)"
proof -
  let ?input = "prev_activations s"
  let ?h = "Height ?input" and ?w = "Width ?input"
  let ?p = "m_keep_prob s"
  let ?G = "if LBANN_SEQUENTIAL_CONSISTENCY s then generator s else fast_generator s"
  let ?ys = "map (\<lambda>u. if canonical u < ?p then 1 / ?p else 0) (stake (?h * ?w) ?G)"
  from ready have unl: "\<not> Locked (m_mask s)" "\<not> Locked (activations s)"
      and inp: "allocated (heap s) ?input"
      and below: "Buffer (m_mask s) < next_free (heap s)" "Buffer (activations s) < next_free (heap s)"
      and dist: "Buffer ?input \<noteq> Buffer (m_mask s)" "Buffer ?input \<noteq> Buffer (activations s)"
        "Buffer (m_mask s) \<noteq> Buffer (activations s)"
    by (simp_all add: forward_ready_def)
  obtain M m1 where r: "Resize ?h ?w (m_mask s) (heap s) = Inr (M, m1)"
      and Mdims: "Height M = ?h" "Width M = ?w" and Munl: "\<not> Locked M"
      and Malloc: "allocated m1 M"
      and Mbuf: "Buffer M = Buffer (m_mask s) \<or> Buffer M = next_free (heap s)"
      and grow: "next_free (heap s) \<le> next_free m1"
      and other: "\<forall>a. a \<noteq> Buffer M \<longrightarrow> cells m1 a = cells (heap s) a"
    using Resize_unlocked [OF unl(1) below(1), of ?h ?w] by blast
  let ?m2 = "store m1 M ?ys"
  have ylen: "length ?ys = Height M * Width M"
    by (simp add: Mdims)
  from Mbuf inp dist below have neM: "Buffer ?input \<noteq> Buffer M" "Buffer (activations s) \<noteq> Buffer M"
    by (auto simp add: allocated_def)
  have inp2: "allocated ?m2 ?input"
    using inp neM(1) other grow by (simp add: allocated_def store_def)
  have M2: "allocated ?m2 M"
    using Malloc ylen by (simp add: allocated_def store_def)
  have out2: "Buffer (activations s) < next_free ?m2"
    using below(2) grow by (simp add: next_free_store)
  have Ment: "entries ?m2 M = ?ys"
    using ylen by (rule entries_store_same) simp_all
  have inpent: "entries ?m2 ?input = entries (heap s) ?input"
    using neM(1) other by (simp add: entries_def store_def)
  obtain out m3 where had: "Hadamard ?input M (activations s) ?m2 = Inr (out, m3)"
      and odims: "Height out = ?h" "Width out = ?w"
      and oent: "entries m3 out = map2 (*) (entries ?m2 ?input) (entries ?m2 M)"
      and keepA: "entries m3 ?input = entries ?m2 ?input"
      and keepM: "entries m3 M = entries ?m2 M"
    using Hadamard_fresh [OF Mdims(1) [symmetric] Mdims(2) [symmetric] unl(2) out2 inp2 M2
        dist(2) neM(2) [symmetric]]
    by blast
  have fill: "(if LBANN_SEQUENTIAL_CONSISTENCY s
        then (case bernoulli_fill_procdet M ?h ?w ?p m1 (generator s) of
                Inl e \<Rightarrow> Inl e
              | Inr (msk', m', gen') \<Rightarrow>
                  (case scale_matrix msk' (1 / ?p) m' of
                     Inl e \<Rightarrow> Inl e
                   | Inr m'' \<Rightarrow> Inr (s\<lparr>heap := m'', m_mask := msk', generator := gen'\<rparr>)))
        else (case EntrywiseMap M
                     (\<lambda>z gen. case bernoulli_distribution ?p gen of
                                 (b, gen') \<Rightarrow> (if b then 1 / ?p else 0, gen'))
                     m1 (fast_generator s) of
                Inl e \<Rightarrow> Inl e
              | Inr (m', gen') \<Rightarrow> Inr (s\<lparr>heap := m', m_mask := M, fast_generator := gen'\<rparr>)))
      = Inr (if LBANN_SEQUENTIAL_CONSISTENCY s
             then s\<lparr>heap := ?m2, m_mask := M, generator := sdrop (?h * ?w) (generator s)\<rparr>
             else s\<lparr>heap := ?m2, m_mask := M, fast_generator := sdrop (?h * ?w) (fast_generator s)\<rparr>)"
    using fill_fast [OF Munl Malloc, where p = ?p and c = "1 / ?p" and g = "fast_generator s"]
      fill_procdet [OF Munl Malloc Mdims, where p = ?p and g = "generator s"]
      scale_after_fill [OF Munl Malloc Mdims, where p = ?p and c = "1 / ?p" and g = "generator s"]
    by (simp add: Mdims)
  let ?s1 = "if LBANN_SEQUENTIAL_CONSISTENCY s
             then s\<lparr>heap := ?m2, m_mask := M, generator := sdrop (?h * ?w) (generator s)\<rparr>
             else s\<lparr>heap := ?m2, m_mask := M, fast_generator := sdrop (?h * ?w) (fast_generator s)\<rparr>"
  have s1: "heap ?s1 = ?m2" "m_mask ?s1 = M" "prev_activations ?s1 = ?input"
    "activations ?s1 = activations s"
    by simp_all
  from mode keep have off: "\<not> (get_execution_mode s \<noteq> training \<or> m_keep_prob s < 0)"
    by simp
  have run: "fp_compute_cpu s = Inr (?s1\<lparr>heap := m3, activations := out\<rparr>)"
    unfolding fp_compute_cpu_def Let_def
    by (simp only: off if_False r sum.case prod.case fill s1 had)
  have fin: "heap (?s1\<lparr>heap := m3, activations := out\<rparr>) = m3"
    "m_mask (?s1\<lparr>heap := m3, activations := out\<rparr>) = M"
    "activations (?s1\<lparr>heap := m3, activations := out\<rparr>) = out"
    "prev_activations (?s1\<lparr>heap := m3, activations := out\<rparr>) = ?input"
    by simp_all
  have c1: "local_shape M = local_shape ?input" "local_shape out = local_shape ?input"
    by (simp_all add: local_shape_def Mdims odims)
  have c2: "entries m3 M = ?ys"
    by (simp only: keepM Ment)
  have c3: "entries m3 out = map2 (*) (entries (heap s) ?input) (entries m3 M)"
    by (simp only: oent keepM inpent)
  have c4: "entries m3 ?input = entries (heap s) ?input"
    by (simp only: keepA inpent)
  show ?thesis
    by (rule exI [of _ "?s1\<lparr>heap := m3, activations := out\<rparr>"])
      (simp only: run fin c1 c2 c3 [unfolded c2] c4 simp_thms)
qed


lemma drawn_mask_nth:
  assumes "i < n"
  shows "map (\<lambda>u. if canonical u < p then c else 0) (stake n G) ! i
         = (if fst (bernoulli_distribution p (sdrop i G)) then c else 0)"
  using assms by (simp add: bernoulli_distribution_def stake_nth sdrop_simps)

text \<open>
  A draw with parameter \<open>p\<close> succeeds exactly on the variates in \<open>[0, p)\<close>. Of \<open>N\<close> equally
  spaced variates \<open>j / N\<close>, where \<open>N\<close> resolves \<open>p = k / N\<close>, it succeeds on exactly \<open>k\<close>: the
  fraction \<open>p\<close>.
\<close>

lemma bernoulli_success_interval:
  "fst (bernoulli_distribution p (u ## g)) = (canonical u \<in> {0 ..< p})"
  using canonical [of u] by (simp add: bernoulli_distribution_def)

lemma bernoulli_success_fraction:
  assumes "0 < N" and "p = real k / real N" and "p \<le> 1"
  shows "card {j. j < N \<and> fst (bernoulli_distribution p (variate_of (real j / real N) ## g))} = k"
proof -
  from assms have kN: "k \<le> N"
    by (simp add: divide_le_eq_1)
  have "fst (bernoulli_distribution p (variate_of (real j / real N) ## g)) = (j < k)"
    if "j < N" for j
  proof -
    from that assms(1) have "0 \<le> real j / real N \<and> real j / real N < 1"
      by simp
    then have "canonical (variate_of (real j / real N)) = real j / real N"
      by (simp add: variate_of.rep_eq)
    with assms(1) show ?thesis
      by (simp add: bernoulli_distribution_def assms(2) divide_less_cancel)
  qed
  then have "{j. j < N \<and> fst (bernoulli_distribution p (variate_of (real j / real N) ## g))}
               = {j. j < N \<and> j < k}"
    by blast
  also from kN have "\<dots> = {..<k}"
    by auto
  finally show ?thesis
    by simp
qed

text \<open>
  C2 (CPU forward pass, training mode, keep probability \<open>p\<close> in \<open>(0, 1]\<close>). The pass returns;
  mask and output have the input's shape; element \<open>i\<close> of the mask stored in the layer's mask
  buffer is \<open>1 / p\<close> when its own Bernoulli draw with parameter \<open>p\<close> (draw number \<open>i\<close> of the
  generator) succeeds and 0 otherwise; and element \<open>i\<close> of the output is the input's element
  times the mask's element. Such a draw succeeds with probability \<open>p\<close>: exactly on the uniform
  variates in \<open>[0, p)\<close>, which are \<open>k\<close> of any \<open>N\<close> equally spaced variates when \<open>p = k / N\<close>.
\<close>

theorem fp_compute_cpu_training_mask:
  assumes "get_execution_mode s = training"
    and "0 < m_keep_prob s" and "m_keep_prob s \<le> 1"
    and "forward_ready s"
  shows "(\<exists>s'. fp_compute_cpu s = Inr s'
           \<and> local_shape (m_mask s') = local_shape (prev_activations s)
           \<and> local_shape (activations s') = local_shape (prev_activations s)
           \<and> length (mask_entries s') = length (input_entries s)
           \<and> length (output_entries s') = length (input_entries s)
           \<and> (\<forall>i < length (input_entries s).
                 mask_entries s' ! i
                   = (if fst (bernoulli_distribution (m_keep_prob s)
                            (sdrop i (if LBANN_SEQUENTIAL_CONSISTENCY s then generator s
                                      else fast_generator s)))
                      then 1 / m_keep_prob s else 0)
                 \<and> output_entries s' ! i = input_entries s ! i * mask_entries s' ! i))
       \<and> (\<forall>u g. fst (bernoulli_distribution (m_keep_prob s) (u ## g))
                  = (canonical u \<in> {0 ..< m_keep_prob s}))
       \<and> (\<forall>N k g. 0 < N \<longrightarrow> m_keep_prob s = real k / real N \<longrightarrow>
             card {j. j < N \<and> fst (bernoulli_distribution (m_keep_prob s)
                                      (variate_of (real j / real N) ## g))} = k)"
proof (intro conjI allI impI)
  let ?n = "Height (prev_activations s) * Width (prev_activations s)"
  let ?G = "if LBANN_SEQUENTIAL_CONSISTENCY s then generator s else fast_generator s"
  let ?ys = "map (\<lambda>u. if canonical u < m_keep_prob s then 1 / m_keep_prob s else 0) (stake ?n ?G)"
  from assms(4) have len: "length (input_entries s) = ?n"
    by (simp add: forward_ready_def input_entries_def length_entries)
  from assms(2) have "0 \<le> m_keep_prob s"
    by simp
  from fp_compute_cpu_enabled [OF assms(1) this assms(4)]
  obtain s' where run: "fp_compute_cpu s = Inr s'"
      and shapes: "local_shape (m_mask s') = local_shape (prev_activations s)"
        "local_shape (activations s') = local_shape (prev_activations s)"
      and msk: "mask_entries s' = ?ys"
      and out: "output_entries s' = map2 (*) (input_entries s) (mask_entries s')"
    unfolding mask_entries_def output_entries_def input_entries_def by blast
  have mlen: "length (mask_entries s') = length (input_entries s)"
    by (simp add: msk len)
  have olen: "length (output_entries s') = length (input_entries s)"
    by (simp add: out mlen)
  have each: "mask_entries s' ! i
                = (if fst (bernoulli_distribution (m_keep_prob s) (sdrop i ?G))
                   then 1 / m_keep_prob s else 0)
              \<and> output_entries s' ! i = input_entries s ! i * mask_entries s' ! i"
    if "i < length (input_entries s)" for i
  proof
    from that len have "i < ?n"
      by simp
    then show "mask_entries s' ! i
                = (if fst (bernoulli_distribution (m_keep_prob s) (sdrop i ?G))
                   then 1 / m_keep_prob s else 0)"
      unfolding msk by (rule drawn_mask_nth)
    from that mlen show "output_entries s' ! i = input_entries s ! i * mask_entries s' ! i"
      by (simp add: out)
  qed
  from run shapes mlen olen each
  show "\<exists>s'. fp_compute_cpu s = Inr s'
           \<and> local_shape (m_mask s') = local_shape (prev_activations s)
           \<and> local_shape (activations s') = local_shape (prev_activations s)
           \<and> length (mask_entries s') = length (input_entries s)
           \<and> length (output_entries s') = length (input_entries s)
           \<and> (\<forall>i < length (input_entries s).
                 mask_entries s' ! i
                   = (if fst (bernoulli_distribution (m_keep_prob s) (sdrop i ?G))
                      then 1 / m_keep_prob s else 0)
                 \<and> output_entries s' ! i = input_entries s ! i * mask_entries s' ! i)"
    by blast
next
  fix u g
  show "fst (bernoulli_distribution (m_keep_prob s) (u ## g))
          = (canonical u \<in> {0 ..< m_keep_prob s})"
    by (rule bernoulli_success_interval)
next
  fix N k :: nat and g :: rng_gen
  assume "0 < N" and "m_keep_prob s = real k / real N"
  then show "card {j. j < N \<and> fst (bernoulli_distribution (m_keep_prob s)
                                      (variate_of (real j / real N) ## g))} = k"
    using assms(3) by (rule bernoulli_success_fraction)
qed

theorem fp_compute_cpu_training_mask_witness:
  "get_execution_mode dropout_example = training
   \<and> 0 < m_keep_prob dropout_example \<and> m_keep_prob dropout_example \<le> 1
   \<and> forward_ready dropout_example
   \<and> input_entries dropout_example = [3, - 2]
   \<and> observe mask_entries (fp_compute_cpu dropout_example) = Inr [2, 0]
   \<and> observe output_entries (fp_compute_cpu dropout_example) = Inr [6, 0]
   \<and> forward_ready dropout_sequential_example
   \<and> observe mask_entries (fp_compute_cpu dropout_sequential_example) = Inr [2, 2]
   \<and> observe output_entries (fp_compute_cpu dropout_sequential_example) = Inr [6, - 4]
   \<and> card {j. j < 4 \<and> fst (bernoulli_distribution (m_keep_prob dropout_example)
                              (variate_of (real j / real (4::nat)) ## sconst (variate_of 0)))} = 2"
proof -
  have hyps: "get_execution_mode dropout_example = training"
    "0 < m_keep_prob dropout_example" "m_keep_prob dropout_example \<le> 1"
    "forward_ready dropout_example"
    by (simp_all add: dropout_example_def forward_ready_def example_matrix_def example_heap_def
          allocated_def)
  have grid: "(0::nat) < 4" "m_keep_prob dropout_example = real (2::nat) / real (4::nat)"
    by (simp_all add: dropout_example_def)
  from fp_compute_cpu_training_mask [OF hyps]
  have "\<forall>N k g. 0 < N \<longrightarrow> m_keep_prob dropout_example = real k / real N \<longrightarrow>
          card {j. j < N \<and> fst (bernoulli_distribution (m_keep_prob dropout_example)
                                   (variate_of (real j / real N) ## g))} = k"
    by blast
  with grid have fraction:
    "card {j. j < 4 \<and> fst (bernoulli_distribution (m_keep_prob dropout_example)
                            (variate_of (real j / real (4::nat)) ## sconst (variate_of 0)))} = 2"
    by blast
  have run: "input_entries dropout_example = [3, - 2]
     \<and> observe mask_entries (fp_compute_cpu dropout_example) = Inr [2, 0]
     \<and> observe output_entries (fp_compute_cpu dropout_example) = Inr [6, 0]
     \<and> forward_ready dropout_sequential_example
     \<and> observe mask_entries (fp_compute_cpu dropout_sequential_example) = Inr [2, 2]
     \<and> observe output_entries (fp_compute_cpu dropout_sequential_example) = Inr [6, - 4]"
    by (simp add: dropout_sequential_example_def dropout_example_def forward_ready_def
          example_matrix_def example_heap_def
          observe_def fp_compute_cpu_def Resize_def EntrywiseMap_def Hadamard_def
          bernoulli_fill_procdet_def scale_matrix_def
          bernoulli_distribution_def variate_of.rep_eq
          entries_def store_def allocated_def local_shape_def
          mask_entries_def output_entries_def input_entries_def)
  from hyps run fraction show ?thesis
    by blast
qed

subsection \<open>Keep probability 1\<close>

lemma canonical_less_one: "canonical u < 1"
  using canonical [of u] by simp

lemma map2_times_ones: "map2 (*) xs (replicate (length xs) (1::real)) = xs"
  by (induction xs) simp_all

text \<open>
  C5 (keep probability exactly 1 in training mode), as stated: the forward pass would leave
  the stored mask neither resized nor rewritten. On the layer \<open>dropout_keep_all\<close> the output
  does equal the input, but the cells of the mask's buffer, \<open>[3, 4]\<close> before the pass, are
  \<open>[1, 1]\<close> after it.
\<close>

theorem keep_all_forward_rewrites_mask:
  "get_execution_mode dropout_keep_all = training \<and> m_keep_prob dropout_keep_all = 1
   \<and> observe output_entries (fp_compute_cpu dropout_keep_all) = Inr (input_entries dropout_keep_all)
   \<and> mask_shape dropout_keep_all = (2, 1)
   \<and> mask_buffer_cells dropout_keep_all = [3, 4]
   \<and> observe mask_buffer_cells (fp_compute_cpu dropout_keep_all) = Inr [1, 1]"
  by (simp add: dropout_keep_all_def dropout_example_def example_matrix_def example_heap_def
        observe_def fp_compute_cpu_def Resize_def EntrywiseMap_def Hadamard_def
        bernoulli_distribution_def variate_of.rep_eq
        entries_def store_def local_shape_def
        mask_shape_def mask_buffer_cells_def output_entries_def input_entries_def)

text \<open>
  C5, amended: with keep probability exactly 1 in training mode the CPU forward pass returns
  an output equal to the input, entry for entry (in this embedding of the elements, bit for
  bit) and of the input's shape; but the pass has its masking side effects: the stored mask
  is resized to the input's shape and every entry of it is rewritten to 1.
\<close>

theorem fp_compute_cpu_keep_all:
  assumes "get_execution_mode s = training" and "m_keep_prob s = 1" and "forward_ready s"
  shows "\<exists>s'. fp_compute_cpu s = Inr s'
           \<and> output_entries s' = input_entries s
           \<and> local_shape (activations s') = local_shape (prev_activations s)
           \<and> mask_shape s' = local_shape (prev_activations s)
           \<and> mask_entries s' = replicate (length (input_entries s)) 1"
proof -
  let ?n = "Height (prev_activations s) * Width (prev_activations s)"
  let ?G = "if LBANN_SEQUENTIAL_CONSISTENCY s then generator s else fast_generator s"
  from assms(3) have len: "length (input_entries s) = ?n"
    by (simp add: forward_ready_def input_entries_def length_entries)
  from assms(2) have "0 \<le> m_keep_prob s"
    by simp
  from fp_compute_cpu_enabled [OF assms(1) this assms(3)]
  obtain s' where run: "fp_compute_cpu s = Inr s'"
      and shapes: "local_shape (m_mask s') = local_shape (prev_activations s)"
        "local_shape (activations s') = local_shape (prev_activations s)"
      and msk: "mask_entries s'
          = map (\<lambda>u. if canonical u < m_keep_prob s then 1 / m_keep_prob s else 0) (stake ?n ?G)"
      and out: "output_entries s' = map2 (*) (input_entries s) (mask_entries s')"
    unfolding mask_entries_def output_entries_def input_entries_def by blast
  have ones: "mask_entries s' = replicate (length (input_entries s)) 1"
    unfolding msk len by (simp add: assms(2) canonical_less_one map_replicate_const)
  have "output_entries s' = input_entries s"
    unfolding out ones by (rule map2_times_ones)
  with run shapes ones show ?thesis
    by (simp add: mask_shape_def)
qed

theorem fp_compute_cpu_keep_all_witness:
  "get_execution_mode dropout_keep_all = training \<and> m_keep_prob dropout_keep_all = 1
   \<and> forward_ready dropout_keep_all
   \<and> input_entries dropout_keep_all = [3, - 2]
   \<and> mask_entries dropout_keep_all = [3, 4]
   \<and> observe output_entries (fp_compute_cpu dropout_keep_all) = Inr [3, - 2]
   \<and> observe mask_shape (fp_compute_cpu dropout_keep_all) = Inr (2, 1)
   \<and> observe mask_entries (fp_compute_cpu dropout_keep_all) = Inr [1, 1]"
  using fp_compute_cpu_keep_all [of dropout_keep_all]
  by (simp add: dropout_keep_all_def dropout_example_def example_matrix_def example_heap_def
        forward_ready_def allocated_def
        observe_def fp_compute_cpu_def Resize_def EntrywiseMap_def Hadamard_def
        bernoulli_distribution_def variate_of.rep_eq
        entries_def store_def local_shape_def
        mask_shape_def mask_entries_def output_entries_def input_entries_def)

subsection \<open>Backward passes\<close>

lemma Hadamard_in_place:
  assumes "Height A = Height B" "Width A = Width B" "\<not> Locked B" "allocated m B"
  shows "Hadamard A B B m = Inr (B, store m B (map2 (*) (entries m A) (entries m B)))"
  using assms by (simp add: Hadamard_def Resize_allocated_same)

lemma bp_compute_cpu_enabled:
  assumes mode: "get_execution_mode s = training" and keep: "0 \<le> m_keep_prob s"
    and ready: "backward_ready s"
  shows "\<exists>s'. bp_compute_cpu s = Inr s'
           \<and> get_execution_mode s' = get_execution_mode s \<and> m_keep_prob s' = m_keep_prob s
           \<and> m_mask s' = m_mask s
           \<and> mask_entries s' = map2 (*) (gradient_wrt_output_entries s) (mask_entries s)
           \<and> gradient_wrt_input_entries s'
               = map2 (\<lambda>x y. x + y) (mask_entries s') (gradient_wrt_input_entries s)
           \<and> gradient_wrt_output_entries s' = gradient_wrt_output_entries s
           \<and> backward_ready s'"
proof -
  let ?gwo = "prev_error_signals s" and ?gwi = "error_signals s" and ?M = "m_mask s"
  let ?prod = "map2 (*) (entries (heap s) ?gwo) (entries (heap s) ?M)"
  let ?m1 = "store (heap s) ?M ?prod"
  from ready have unl: "\<not> Locked ?M" "\<not> Locked ?gwi"
      and al: "allocated (heap s) ?gwo" "allocated (heap s) ?M" "allocated (heap s) ?gwi"
      and sh: "Height ?gwo = Height ?M" "Width ?gwo = Width ?M"
        "Height ?gwi = Height ?M" "Width ?gwi = Width ?M"
      and dist: "Buffer ?gwo \<noteq> Buffer ?M" "Buffer ?gwo \<noteq> Buffer ?gwi" "Buffer ?M \<noteq> Buffer ?gwi"
    by (simp_all add: backward_ready_def local_shape_def)
  have plen: "length ?prod = Height ?M * Width ?M"
    using al sh by (simp add: length_entries)
  have had: "Hadamard ?gwo ?M ?M (heap s) = Inr (?M, ?m1)"
    using sh(1,2) unl(1) al(2) by (rule Hadamard_in_place)
  have Ment: "entries ?m1 ?M = ?prod"
    using plen by (rule entries_store_same) simp_all
  have pcap: "length ?prod \<le> length (cells (heap s) (Buffer ?M))"
    using plen al(2) by (simp add: allocated_def)
  have al1: "allocated ?m1 ?gwo" "allocated ?m1 ?M" "allocated ?m1 ?gwi"
    using al pcap by (simp_all add: allocated_store)
  obtain m2 where ax: "Axpy 1 ?M ?gwi ?m1 = Inr m2"
      and gwient: "entries m2 ?gwi = map2 (\<lambda>x y. 1 * x + y) (entries ?m1 ?M) (entries ?m1 ?gwi)"
      and nf: "next_free m2 = next_free ?m1"
      and other: "\<forall>a. a \<noteq> Buffer ?gwi \<longrightarrow> cells m2 a = cells ?m1 a"
      and cap: "length (cells m2 (Buffer ?gwi)) = length (cells ?m1 (Buffer ?gwi))"
    using Axpy_conformal [OF unl(2) sh(3) [symmetric] sh(4) [symmetric] al1(2) al1(3), of 1]
    by blast
  from mode keep have off: "\<not> (get_execution_mode s \<noteq> training \<or> m_keep_prob s < 0)"
    by simp
  let ?s' = "s\<lparr>heap := m2, m_mask := ?M\<rparr>"
  have run: "bp_compute_cpu s = Inr ?s'"
    unfolding bp_compute_cpu_def Let_def
    by (simp only: off if_False had ax sum.case prod.case)
  have gwi1: "entries ?m1 ?gwi = entries (heap s) ?gwi"
    using dist(3) by (simp add: entries_store_other)
  have gwo1: "entries ?m1 ?gwo = entries (heap s) ?gwo"
    using dist(1) by (simp add: entries_store_other)
  have M2: "entries m2 ?M = ?prod"
    using other dist(3) Ment by (simp add: entries_def)
  have gwo2: "entries m2 ?gwo = entries (heap s) ?gwo"
    using other dist(2) gwo1 by (simp add: entries_def)
  have al2: "allocated m2 ?gwo" "allocated m2 ?M" "allocated m2 ?gwi"
    using al1 other dist nf cap by (simp_all add: allocated_def)
  have ready': "backward_ready ?s'"
    unfolding backward_ready_def using unl al2 sh dist by (simp add: local_shape_def)
  then have ready'': "backward_ready (s\<lparr>heap := m2\<rparr>)"
    by simp
  show ?thesis
    by (rule exI [of _ ?s'])
      (simp add: run ready'' mask_entries_def gradient_wrt_output_entries_def
         gradient_wrt_input_entries_def M2 gwo2 gwient Ment gwi1)
qed

text \<open>
  C10 (CPU backward pass, training mode, dropout enabled). The pass returns with the same mask
  object (same buffer, same shape) whose entries are now the entrywise product of the
  gradient with respect to the output and the old mask, so the mask differs from the one the
  forward pass drew as soon as one kept element has a gradient other than 1; the gradient with
  respect to the input has received that product. A second backward pass on the resulting
  state multiplies the gradient into the mask once more: it adds gradient times gradient times
  mask.
\<close>

theorem bp_compute_cpu_overwrites_mask:
  assumes "get_execution_mode s = training" and "0 \<le> m_keep_prob s" and "backward_ready s"
  shows "\<exists>s'. bp_compute_cpu s = Inr s'
           \<and> m_mask s' = m_mask s
           \<and> mask_entries s' = map2 (*) (gradient_wrt_output_entries s) (mask_entries s)
           \<and> ((\<exists>i < length (mask_entries s).
                   mask_entries s ! i \<noteq> 0 \<and> gradient_wrt_output_entries s ! i \<noteq> 1)
                \<longrightarrow> mask_entries s' \<noteq> mask_entries s)
           \<and> gradient_wrt_input_entries s'
               = map2 (\<lambda>x y. x + y)
                   (map2 (*) (gradient_wrt_output_entries s) (mask_entries s))
                   (gradient_wrt_input_entries s)
           \<and> (\<exists>s''. bp_compute_cpu s' = Inr s''
                 \<and> gradient_wrt_input_entries s''
                     = map2 (\<lambda>x y. x + y)
                         (map2 (*) (gradient_wrt_output_entries s)
                            (map2 (*) (gradient_wrt_output_entries s) (mask_entries s)))
                         (gradient_wrt_input_entries s'))"
proof -
  from bp_compute_cpu_enabled [OF assms]
  obtain s' where run: "bp_compute_cpu s = Inr s'"
      and same: "get_execution_mode s' = get_execution_mode s" "m_keep_prob s' = m_keep_prob s"
      and obj: "m_mask s' = m_mask s"
      and msk: "mask_entries s' = map2 (*) (gradient_wrt_output_entries s) (mask_entries s)"
      and gwi: "gradient_wrt_input_entries s'
                 = map2 (\<lambda>x y. x + y) (mask_entries s') (gradient_wrt_input_entries s)"
      and gwo: "gradient_wrt_output_entries s' = gradient_wrt_output_entries s"
      and ready': "backward_ready s'"
    by blast
  from same assms(1,2) have mode': "get_execution_mode s' = training" and keep': "0 \<le> m_keep_prob s'"
    by simp_all
  from bp_compute_cpu_enabled [OF mode' keep' ready']
  obtain s'' where run2: "bp_compute_cpu s' = Inr s''"
      and msk2: "mask_entries s'' = map2 (*) (gradient_wrt_output_entries s') (mask_entries s')"
      and gwi2: "gradient_wrt_input_entries s''
                 = map2 (\<lambda>x y. x + y) (mask_entries s'') (gradient_wrt_input_entries s')"
    by blast
  from assms(3) have lens: "length (gradient_wrt_output_entries s) = length (mask_entries s)"
    by (simp add: backward_ready_def local_shape_def gradient_wrt_output_entries_def
          mask_entries_def length_entries)
  have changed: "mask_entries s' \<noteq> mask_entries s"
    if "\<exists>i < length (mask_entries s).
          mask_entries s ! i \<noteq> 0 \<and> gradient_wrt_output_entries s ! i \<noteq> 1"
  proof
    from that obtain i where i: "i < length (mask_entries s)" "mask_entries s ! i \<noteq> 0"
        "gradient_wrt_output_entries s ! i \<noteq> 1"
      by blast
    assume "mask_entries s' = mask_entries s"
    then have "mask_entries s' ! i = mask_entries s ! i"
      by simp
    with i(1) lens have "gradient_wrt_output_entries s ! i * mask_entries s ! i = mask_entries s ! i"
      by (simp add: msk)
    with i(2,3) show False
      by simp
  qed
  have second: "gradient_wrt_input_entries s''
      = map2 (\<lambda>x y. x + y)
          (map2 (*) (gradient_wrt_output_entries s)
             (map2 (*) (gradient_wrt_output_entries s) (mask_entries s)))
          (gradient_wrt_input_entries s')"
    by (simp only: gwi2 msk2 gwo msk)
  from run obj msk changed gwi [unfolded msk] run2 second show ?thesis
    by blast
qed

theorem bp_compute_cpu_overwrites_mask_witness:
  "get_execution_mode dropout_example = training \<and> 0 \<le> m_keep_prob dropout_example
   \<and> backward_ready dropout_example
   \<and> mask_entries dropout_example = [2, 0]
   \<and> observe mask_entries (bp_compute_cpu dropout_example) = Inr [6, 0]
   \<and> observe gradient_wrt_input_entries (bp_compute_cpu dropout_example) = Inr [11, 7]"
  using bp_compute_cpu_overwrites_mask [of dropout_example]
  by (simp add: dropout_example_def example_matrix_def example_heap_def
        backward_ready_def allocated_def
        observe_def bp_compute_cpu_def Resize_def Axpy_def Hadamard_def
        entries_def store_def local_shape_def
        mask_entries_def gradient_wrt_input_entries_def gradient_wrt_output_entries_def)

text \<open>
  C1 (backward passes accumulate). On the accelerator with dropout enabled the gradient with
  respect to the input is overwritten: on \<open>dropout_gpu_example\<close> the buffer holds \<open>[5, 7]\<close>
  from other children, the contribution is \<open>[3, 4]\<close> times the mask \<open>[2, 0]\<close>, and after the
  pass the buffer holds \<open>[6, 0]\<close>; the CPU pass on the same data leaves \<open>[11, 7]\<close>.
\<close>

theorem bp_compute_gpu_overwrites_error_signal:
  "gradient_wrt_input_entries dropout_gpu_example = [5, 7]
   \<and> gradient_wrt_output_entries dropout_gpu_example = [3, 4]
   \<and> reserve_mask dropout_gpu_example = [2, 0]
   \<and> observe gradient_wrt_input_entries (bp_compute dropout_gpu_example) = Inr [6, 0]
   \<and> observe gradient_wrt_input_entries
        (bp_compute (dropout_gpu_example\<lparr>using_gpus := False\<rparr>)) = Inr [11, 7]"
  by (simp add: dropout_gpu_example_def dropout_example_def example_matrix_def example_heap_def
        observe_def bp_compute_def bp_compute_gpu_def bp_compute_cpu_def cudnnDropoutBackward_def
        Let_def set_tensor_desc_def numel_def sizeof_DataType_def
        Resize_def Axpy_def Hadamard_def
        entries_def store_def local_shape_def
        gradient_wrt_input_entries_def gradient_wrt_output_entries_def)

text \<open>
  The accelerator forward pass configures each descriptor from the buffer it is passed with:
  the invocation it records, if it makes one, pairs the input and the output each with a
  descriptor that was configured from it.
\<close>

lemma fp_compute_gpu_descriptors_match:
  assumes "fp_compute_gpu s = Inr s'"
  shows "kernel_calls s' = kernel_calls s
         \<or> (\<exists>xd yd. kernel_calls s' = kernel_calls s @
                [\<lparr>kernel_name = ''cudnnDropoutForward'',
                  descriptor_buffer_pairs = [(xd, prev_activations s), (yd, activations s)]\<rparr>]
              \<and> configured_from xd (prev_activations s)
              \<and> configured_from yd (activations s))"
  using assms
  by (auto simp add: fp_compute_gpu_def Let_def cudnnDropoutForward_def set_tensor_desc_def
        LockedView_def configured_from_def split: if_splits option.splits)

text \<open>
  The accelerator backward pass, whenever it invokes its kernel, passes the gradient with
  respect to the output with a descriptor configured from the gradient with respect to the
  input, and the gradient with respect to the input with a descriptor configured from the
  gradient with respect to the output.
\<close>

lemma bp_compute_gpu_kernel_call:
  assumes "bp_compute_gpu s = Inr s'" and "kernel_calls s' \<noteq> kernel_calls s"
  shows "\<exists>dyd dxd. kernel_calls s' = kernel_calls s @
            [\<lparr>kernel_name = ''cudnnDropoutBackward'',
              descriptor_buffer_pairs = [(dyd, prev_error_signals s), (dxd, error_signals s)]\<rparr>]
          \<and> configured_from dyd (error_signals s)
          \<and> configured_from dxd (prev_error_signals s)"
  using assms
  by (auto simp add: bp_compute_gpu_def Let_def cudnnDropoutBackward_def set_tensor_desc_def
        configured_from_def split: if_splits option.splits sum.splits)

text \<open>
  C7 (descriptors match buffers at every kernel invocation). In the accelerator backward pass
  the descriptor passed with the gradient with respect to the output is configured from the
  gradient with respect to the input, and the other way round. On \<open>dropout_gpu_example\<close>,
  whose two gradients are both locally 2 x 1, in the buffers at addresses 3 and 4, the
  recorded kernel invocation pairs the buffer at address 3 with a descriptor configured from
  the buffer at address 4, and the buffer at address 4 with a descriptor configured from the
  buffer at address 3; neither descriptor was configured from the buffer it is passed with.
\<close>

theorem bp_compute_gpu_descriptors_swapped:
  "prev_error_signals dropout_gpu_example = example_matrix 3
   \<and> error_signals dropout_gpu_example = example_matrix 4
   \<and> observe kernel_calls (bp_compute dropout_gpu_example)
       = Inr [\<lparr>kernel_name = ''cudnnDropoutBackward'',
               descriptor_buffer_pairs =
                 [(\<lparr>desc_shape = (2, 1), desc_source = 4\<rparr>, example_matrix 3),
                  (\<lparr>desc_shape = (2, 1), desc_source = 3\<rparr>, example_matrix 4)]\<rparr>]
   \<and> \<not> configured_from \<lparr>desc_shape = (2, 1), desc_source = 4\<rparr> (example_matrix 3)
   \<and> \<not> configured_from \<lparr>desc_shape = (2, 1), desc_source = 3\<rparr> (example_matrix 4)
   \<and> observe m_gradient_wrt_output_cudnn_desc (bp_compute dropout_gpu_example)
       = Inr (Some \<lparr>desc_shape = (2, 1), desc_source = Buffer (error_signals dropout_gpu_example)\<rparr>)
   \<and> observe m_gradient_wrt_input_cudnn_desc (bp_compute dropout_gpu_example)
       = Inr (Some \<lparr>desc_shape = (2, 1),
                     desc_source = Buffer (prev_error_signals dropout_gpu_example)\<rparr>)"
  by (simp add: dropout_gpu_example_def dropout_example_def example_matrix_def example_heap_def
        observe_def bp_compute_def bp_compute_gpu_def cudnnDropoutBackward_def Let_def
        set_tensor_desc_def configured_from_def numel_def sizeof_DataType_def local_shape_def)

end
